theory Spec2Isabelle
  imports Complex_Main
begin

section \<open>MindFlow: the DSI score engine, the session registry and the behaviour monitor\<close>

text \<open>
  The development embeds the second revision of the background service worker
  (\<^verbatim>\<open>calculateDSIDelta\<close>, \<^verbatim>\<open>updateDSI\<close>, the message handlers, the timer registry and the
  tab lifecycle listeners) and the \<^verbatim>\<open>BehaviorMonitor\<close> class of the content script.

  Numbers. The score, the deltas and the behaviour features are JavaScript numbers,
  modelled as \<open>jsnum\<close>: a real (no rounding, no infinities) or \<^verbatim>\<open>NaN\<close>, with JavaScript's
  rules that arithmetic on \<^verbatim>\<open>NaN\<close> gives \<^verbatim>\<open>NaN\<close> and that every comparison with \<^verbatim>\<open>NaN\<close>
  is false. A value read from one of the two configuration tables is a \<open>jsval\<close>: a number,
  \<^verbatim>\<open>undefined\<close>, or a member inherited from \<^verbatim>\<open>Object.prototype\<close>, which is truthy and
  turns into \<^verbatim>\<open>NaN\<close> in arithmetic. The clock and the entropy are reals.

  Time. \<^verbatim>\<open>Date.now()\<close> is the parameter \<open>now\<close> of each operation.

  Asynchrony. Each handler is modelled as one atomic step: the values awaited by
  \<^verbatim>\<open>updateDSI\<close> (message delivery, storage writes, badge updates) are recorded as outputs
  and never read back. The badge calls of \<^verbatim>\<open>chrome.action\<close> and the \<^verbatim>\<open>timestamp\<close> field of
  outgoing messages are left out; the field \<^verbatim>\<open>idleStartTime\<close> is never read or written after
  initialisation and is left out as well.
\<close>

subsection \<open>JavaScript numbers\<close>

datatype jsnum = Num real | NaN

text \<open>
  The comparisons \<^verbatim>\<open>a > t\<close>, \<^verbatim>\<open>a >= t\<close>, \<^verbatim>\<open>a < t\<close> and \<^verbatim>\<open>a <= t\<close> of a number \<open>a\<close> with a
  constant \<open>t\<close>: all four are false when \<open>a\<close> is \<^verbatim>\<open>NaN\<close>.
\<close>

fun js_gt :: "jsnum \<Rightarrow> real \<Rightarrow> bool" where
  "js_gt (Num a) t = (a > t)"
| "js_gt NaN t = False"

fun js_ge :: "jsnum \<Rightarrow> real \<Rightarrow> bool" where
  "js_ge (Num a) t = (a \<ge> t)"
| "js_ge NaN t = False"

fun js_lt :: "jsnum \<Rightarrow> real \<Rightarrow> bool" where
  "js_lt (Num a) t = (a < t)"
| "js_lt NaN t = False"

fun js_le :: "jsnum \<Rightarrow> real \<Rightarrow> bool" where
  "js_le (Num a) t = (a \<le> t)"
| "js_le NaN t = False"

text \<open>\<^verbatim>\<open>a + b\<close>, \<^verbatim>\<open>a - b\<close>, \<^verbatim>\<open>a * b\<close> and \<^verbatim>\<open>-a\<close>: \<^verbatim>\<open>NaN\<close> as soon as one operand is.\<close>

fun js_add :: "jsnum \<Rightarrow> jsnum \<Rightarrow> jsnum" where
  "js_add (Num a) (Num b) = Num (a + b)"
| "js_add _ _ = NaN"

fun js_sub :: "jsnum \<Rightarrow> jsnum \<Rightarrow> jsnum" where
  "js_sub (Num a) (Num b) = Num (a - b)"
| "js_sub _ _ = NaN"

fun js_mul :: "jsnum \<Rightarrow> jsnum \<Rightarrow> jsnum" where
  "js_mul (Num a) (Num b) = Num (a * b)"
| "js_mul _ _ = NaN"

fun js_neg :: "jsnum \<Rightarrow> jsnum" where
  "js_neg (Num a) = Num (- a)"
| "js_neg NaN = NaN"

text \<open>\<^verbatim>\<open>Math.max(a, b)\<close> and \<^verbatim>\<open>Math.min(a, b)\<close>: \<^verbatim>\<open>NaN\<close> as soon as one argument is.\<close>

fun Math_max :: "jsnum \<Rightarrow> jsnum \<Rightarrow> jsnum" where
  "Math_max (Num a) (Num b) = Num (max a b)"
| "Math_max _ _ = NaN"

fun Math_min :: "jsnum \<Rightarrow> jsnum \<Rightarrow> jsnum" where
  "Math_min (Num a) (Num b) = Num (min a b)"
| "Math_min _ _ = NaN"

subsection \<open>Values read from a configuration table\<close>

text \<open>
  \<^verbatim>\<open>table[key]\<close> on an object literal yields the number stored under an own key, the
  member inherited from \<^verbatim>\<open>Object.prototype\<close> when the key names one (a function, or the
  prototype object for \<^verbatim>\<open>__proto__\<close>), and \<^verbatim>\<open>undefined\<close> otherwise.
\<close>

datatype jsval = Number real | Inherited | Undefined

definition inheritedKeys :: "string list" where
  "inheritedKeys =
     [''constructor'', ''toString'', ''toLocaleString'', ''valueOf'', ''hasOwnProperty'',
      ''isPrototypeOf'', ''propertyIsEnumerable'', ''__proto__'', ''__defineGetter__'',
      ''__defineSetter__'', ''__lookupGetter__'', ''__lookupSetter__'']"

text \<open>
  \<^verbatim>\<open>v || 1.0\<close>: \<^verbatim>\<open>undefined\<close> and \<open>0\<close> are falsy, an inherited member is truthy and is
  kept.
\<close>

definition or_default :: "jsval \<Rightarrow> jsval" where
  "or_default v =
     (case v of
        Undefined \<Rightarrow> Number 1.0
      | Number x \<Rightarrow> if x = 0 then Number 1.0 else Number x
      | Inherited \<Rightarrow> Inherited)"

text \<open>The number a value stands for as an operand of \<^verbatim>\<open>*\<close>.\<close>

definition toNumber :: "jsval \<Rightarrow> jsnum" where
  "toNumber v = (case v of Number x \<Rightarrow> Num x | Inherited \<Rightarrow> NaN | Undefined \<Rightarrow> NaN)"

subsection \<open>Per-tab state (\<^verbatim>\<open>TabState\<close>) and configuration (\<^verbatim>\<open>DSI_CONFIG\<close>)\<close>

record TabState =
  dsi :: jsnum
  lastActivityTime :: real
  isTherapyActive :: bool
  isReaderModeActive :: bool
  currentLevel :: nat
  scrollSpeed :: jsnum
  clickFrequency :: jsnum
  directionChanges :: jsnum
  rageClickCount :: jsnum
  isIdle :: bool
  pageType :: string
  isDeepReading :: bool
  entropyScore :: real
  contextCoefficient :: jsval
  suggestionShown :: bool

abbreviation (input) SCROLL_SPEED_THRESHOLD :: real where "SCROLL_SPEED_THRESHOLD \<equiv> 2000"
abbreviation (input) SCROLL_SPEED_CHAOTIC :: real where "SCROLL_SPEED_CHAOTIC \<equiv> 3000"
abbreviation (input) CLICK_FREQUENCY_THRESHOLD :: real where "CLICK_FREQUENCY_THRESHOLD \<equiv> 3"
abbreviation (input) CLICK_FREQUENCY_CHAOTIC :: real where "CLICK_FREQUENCY_CHAOTIC \<equiv> 5"
abbreviation (input) DIRECTION_CHANGE_CHAOTIC :: real where "DIRECTION_CHANGE_CHAOTIC \<equiv> 2"
abbreviation (input) RAGE_CLICK_THRESHOLD :: real where "RAGE_CLICK_THRESHOLD \<equiv> 2"
abbreviation (input) SCROLL_INCREMENT :: real where "SCROLL_INCREMENT \<equiv> 1.5"
abbreviation (input) SCROLL_CHAOTIC_INCREMENT :: real where "SCROLL_CHAOTIC_INCREMENT \<equiv> 5"
abbreviation (input) CLICK_INCREMENT :: real where "CLICK_INCREMENT \<equiv> 2"
abbreviation (input) CLICK_CHAOTIC_INCREMENT :: real where "CLICK_CHAOTIC_INCREMENT \<equiv> 8"
abbreviation (input) FLOW_RECOVERY :: real where "FLOW_RECOVERY \<equiv> 1.0"
abbreviation (input) ACTIVE_RECOVERY_BASE :: real where "ACTIVE_RECOVERY_BASE \<equiv> 0.5"
abbreviation (input) FLOW_ZONE_MIN :: real where "FLOW_ZONE_MIN \<equiv> 40"
abbreviation (input) FLOW_ZONE_MAX :: real where "FLOW_ZONE_MAX \<equiv> 60"
abbreviation (input) DECAY_DELAY :: real where "DECAY_DELAY \<equiv> 2500"
abbreviation (input) DEEP_READING_THRESHOLD :: real where "DEEP_READING_THRESHOLD \<equiv> 10000"
abbreviation (input) DECAY_BASE_RATE :: real where "DECAY_BASE_RATE \<equiv> 0.6"
abbreviation (input) DECAY_FACTOR :: real where "DECAY_FACTOR \<equiv> 0.05"
abbreviation (input) THERAPY_BONUS :: real where "THERAPY_BONUS \<equiv> 3.0"
abbreviation (input) LEVEL_1_THRESHOLD :: real where "LEVEL_1_THRESHOLD \<equiv> 35"
abbreviation (input) LEVEL_2_THRESHOLD :: real where "LEVEL_2_THRESHOLD \<equiv> 65"
abbreviation (input) LEVEL_2_SUGGEST :: real where "LEVEL_2_SUGGEST \<equiv> 72"
abbreviation (input) LEVEL_3_THRESHOLD :: real where "LEVEL_3_THRESHOLD \<equiv> 85"
abbreviation (input) MAX_DSI :: real where "MAX_DSI \<equiv> 100"
abbreviation (input) MIN_DSI :: real where "MIN_DSI \<equiv> 0"

text \<open>The two lookup tables \<^verbatim>\<open>DECAY_MULTIPLIERS[p]\<close> and \<^verbatim>\<open>CONTEXT_WEIGHTS[p]\<close>.\<close>

definition DECAY_MULTIPLIERS :: "string \<Rightarrow> jsval" where
  "DECAY_MULTIPLIERS p =
     (if p = ''video'' then Number 0.5
      else if p = ''document'' then Number 0.3
      else if p = ''shopping'' then Number 0.8
      else if p = ''other'' then Number 1.0
      else if p \<in> set inheritedKeys then Inherited
      else Undefined)"

definition CONTEXT_WEIGHTS :: "string \<Rightarrow> jsval" where
  "CONTEXT_WEIGHTS p =
     (if p = ''social'' then Number 1.3
      else if p = ''news'' then Number 1.2
      else if p = ''video'' then Number 0.6
      else if p = ''document'' then Number 0.5
      else if p = ''shopping'' then Number 1.1
      else if p = ''other'' then Number 1.0
      else if p \<in> set inheritedKeys then Inherited
      else Undefined)"

definition getContextCoefficient :: "string \<Rightarrow> jsval" where
  "getContextCoefficient p = or_default (CONTEXT_WEIGHTS p)"

definition initTabState :: "real \<Rightarrow> TabState" where
  "initTabState now =
     \<lparr> dsi = Num 0, lastActivityTime = now, isTherapyActive = False, isReaderModeActive = False,
       currentLevel = 0, scrollSpeed = Num 0, clickFrequency = Num 0,
       directionChanges = Num 0, rageClickCount = Num 0, isIdle = False,
       pageType = ''other'', isDeepReading = False, entropyScore = 0,
       contextCoefficient = Number 1.0, suggestionShown = False \<rparr>"

subsection \<open>The score engine\<close>

definition calculateEntropyScore :: "TabState \<Rightarrow> real" where
  "calculateEntropyScore state =
     (let e1 = (if js_gt (directionChanges state) DIRECTION_CHANGE_CHAOTIC then 0.5 else 0);
          e2 = e1 + (if js_gt (rageClickCount state) RAGE_CLICK_THRESHOLD then 0.5 else 0);
          e3 = e2 + (if js_gt (scrollSpeed state) SCROLL_SPEED_CHAOTIC then 0.3
                     else if js_gt (scrollSpeed state) SCROLL_SPEED_THRESHOLD then 0.1 else 0);
          e4 = e3 + (if js_gt (clickFrequency state) CLICK_FREQUENCY_CHAOTIC then 0.3 else 0)
      in min 1 e4)"

definition isInFlowZone :: "jsnum \<Rightarrow> bool" where
  "isInFlowZone d = (js_ge d FLOW_ZONE_MIN \<and> js_le d FLOW_ZONE_MAX)"

text \<open>Branch 1 of \<^verbatim>\<open>calculateDSIDelta\<close>: therapy, returned at once.\<close>

definition therapyDelta :: "TabState \<Rightarrow> jsnum" where
  "therapyDelta state = js_neg (js_add (Num THERAPY_BONUS) (js_mul (dsi state) (Num DECAY_FACTOR)))"

text \<open>Branch 2: reader mode, pulled towards the band 45..55, returned at once.\<close>

definition readerDelta :: "TabState \<Rightarrow> jsnum" where
  "readerDelta state =
     (let baseDecay0 = Num (DECAY_BASE_RATE * 0.3);
          pageDecayMultiplier = or_default (DECAY_MULTIPLIERS (pageType state));
          baseDecay = js_mul baseDecay0 (toNumber pageDecayMultiplier)
      in if js_ge (dsi state) 45 \<and> js_le (dsi state) 55 then Num 0
         else if js_gt (dsi state) 55 then js_neg baseDecay
         else Num 0.2)"

text \<open>Branch 3, active side: the delta and the state with its idle flags cleared.\<close>

definition activeDelta :: "jsval \<Rightarrow> TabState \<Rightarrow> jsnum \<times> TabState" where
  "activeDelta contextCoeff state =
     (let state1 = (if isIdle state \<or> isDeepReading state
                    then state\<lparr>isIdle := False, isDeepReading := False\<rparr> else state);
          inFlowZone = isInFlowZone (dsi state1)
      in if js_gt (directionChanges state1) DIRECTION_CHANGE_CHAOTIC
           then (js_add (Num 0) (js_mul (Num SCROLL_CHAOTIC_INCREMENT) (toNumber contextCoeff)), state1)
         else if js_gt (rageClickCount state1) RAGE_CLICK_THRESHOLD
           then (js_add (Num 0) (js_mul (Num CLICK_CHAOTIC_INCREMENT) (toNumber contextCoeff)), state1)
         else if js_gt (scrollSpeed state1) SCROLL_SPEED_CHAOTIC
           then (js_add (Num 0) (js_mul (Num SCROLL_INCREMENT) (toNumber contextCoeff)), state1)
         else if js_gt (clickFrequency state1) CLICK_FREQUENCY_THRESHOLD
           then (js_add (Num 0) (js_mul (Num CLICK_INCREMENT) (toNumber contextCoeff)), state1)
         else
           (let activeRecovery = (if js_gt (dsi state1) 70 then ACTIVE_RECOVERY_BASE * 1.5
                                  else ACTIVE_RECOVERY_BASE);
                delta = (if inFlowZone then Num (- FLOW_RECOVERY) else Num (- activeRecovery))
            in if js_gt (scrollSpeed state1) SCROLL_SPEED_THRESHOLD
                  \<and> js_le (scrollSpeed state1) SCROLL_SPEED_CHAOTIC
               then (js_mul (Num 0.5) (toNumber contextCoeff), state1)
               else (delta, state1)))"

text \<open>Branch 3, idle side: grace period, deep reading, natural decay.\<close>

definition idleDelta :: "real \<Rightarrow> TabState \<Rightarrow> jsnum \<times> TabState" where
  "idleDelta timeSinceLastActivity state =
     (if timeSinceLastActivity < DECAY_DELAY then (Num 0, state)
      else if (pageType state = ''document'' \<or> pageType state = ''news'')
              \<and> timeSinceLastActivity > DEEP_READING_THRESHOLD
        then (Num (- 0.4), if \<not> isDeepReading state then state\<lparr>isDeepReading := True\<rparr> else state)
      else
        (let decay0 = js_add (Num DECAY_BASE_RATE) (js_mul (dsi state) (Num DECAY_FACTOR));
             pageDecayMultiplier = or_default (DECAY_MULTIPLIERS (pageType state));
             decay1 = js_mul decay0 (toNumber pageDecayMultiplier);
             decay2 = (if isInFlowZone (dsi state) then js_mul decay1 (Num 0.5) else decay1);
             decay = (if js_lt decay2 0.1 \<and> js_gt decay2 0 \<and> js_gt (dsi state) 0
                      then Num 0.1 else decay2)
         in (js_neg decay, if \<not> isIdle state then state\<lparr>isIdle := True\<rparr> else state)))"

text \<open>Step 4: the level-1 floor at 25.\<close>

definition level1Floor :: "TabState \<Rightarrow> jsnum \<Rightarrow> jsnum" where
  "level1Floor state delta =
     (if currentLevel state = 1 \<and> js_lt delta 0 then
        (if js_lt (js_add (dsi state) delta) 25 then
           (if js_gt (dsi state) 25 then js_neg (js_sub (dsi state) (Num 25)) else Num 0)
         else delta)
      else delta)"

definition calculateDSIDelta :: "real \<Rightarrow> TabState \<Rightarrow> jsnum \<times> TabState" where
  "calculateDSIDelta now state0 =
     (let timeSinceLastActivity = now - lastActivityTime state0;
          contextCoeff = or_default (contextCoefficient state0);
          state = state0\<lparr>entropyScore := calculateEntropyScore state0\<rparr>
      in if isTherapyActive state then (therapyDelta state, state)
         else if isReaderModeActive state then (readerDelta state, state)
         else
           (let isMeaningfulActivity = (js_gt (scrollSpeed state) 50 \<or> js_gt (clickFrequency state) 0);
                (delta, state1) = (if isMeaningfulActivity then activeDelta contextCoeff state
                                   else idleDelta timeSinceLastActivity state)
            in (level1Floor state1 delta, state1)))"

subsection \<open>Outgoing messages and persisted snapshots\<close>

datatype suggestion = gentle | strong

text \<open>
  \<open>INTERVENTION tabId level dsi suggestion entropyScore isInFlowZone pageType\<close> and
  \<open>SUGGESTION tabId dsi suggestionType\<close> are the two messages of
  \<^verbatim>\<open>chrome.tabs.sendMessage\<close>. A delivery failure is caught and ignored by the source, so
  a message is recorded when it is sent.
\<close>

datatype msg =
    INTERVENTION nat nat jsnum "suggestion option" real bool string
  | SUGGESTION nat jsnum suggestion

text \<open>The storage key \<^verbatim>\<open>`${prefix}${tabId}`\<close> is the pair \<open>(prefix, tabId)\<close>.\<close>

type_synonym skey = "string \<times> nat"

datatype sval = SNum jsnum | SBool bool

definition triggerIntervention :: "nat \<Rightarrow> TabState \<Rightarrow> nat \<Rightarrow> jsnum \<Rightarrow> suggestion option \<Rightarrow> msg" where
  "triggerIntervention tabId state level d suggestion =
     INTERVENTION tabId level d suggestion (entropyScore state) (isInFlowZone d) (pageType state)"

definition sendSuggestion :: "nat \<Rightarrow> jsnum \<Rightarrow> suggestion \<Rightarrow> msg" where
  "sendSuggestion tabId d suggestionType = SUGGESTION tabId d suggestionType"

subsection \<open>\<^verbatim>\<open>updateDSI\<close>: one tick\<close>

text \<open>The standard threshold ladder with the level-1 entry/exit pair.\<close>

definition standardLevel :: "TabState \<Rightarrow> nat \<times> suggestion option" where
  "standardLevel state =
     (if js_gt (dsi state) LEVEL_3_THRESHOLD then (3, None)
      else if js_gt (dsi state) LEVEL_2_SUGGEST then (2, Some strong)
      else if js_gt (dsi state) LEVEL_2_THRESHOLD then (1, Some gentle)
      else
        (let level1ExitThreshold = 20;
             isAlreadyLevel1 = (currentLevel state = 1)
         in if js_gt (dsi state) LEVEL_1_THRESHOLD then (1, None)
            else if isAlreadyLevel1 \<and> js_gt (dsi state) level1ExitThreshold then (1, None)
            else (0, None)))"

text \<open>The reader-mode lock in front of the ladder.\<close>

definition deriveLevel :: "TabState \<Rightarrow> nat \<times> suggestion option" where
  "deriveLevel state =
     (if isReaderModeActive state then
        (if js_gt (dsi state) LEVEL_3_THRESHOLD then (3, None) else (2, None))
      else standardLevel state)"

text \<open>
  The tick on one tab's state: the new state, the messages sent and the storage entries
  written, in order. The therapy branch returns before the counters are reset and before
  anything is persisted.
\<close>

definition updateDSI_tab :: "real \<Rightarrow> nat \<Rightarrow> TabState \<Rightarrow> TabState \<times> msg list \<times> (skey \<times> sval) list" where
  "updateDSI_tab now tabId state0 =
     (let (delta, state1) = calculateDSIDelta now state0;
          state = state1\<lparr>dsi := Math_max (Num MIN_DSI)
                                   (Math_min (Num MAX_DSI) (js_add (dsi state1) delta))\<rparr>
      in if isTherapyActive state then
           (if currentLevel state = 3 then (state, [], [])
            else
              (let stateT = state\<lparr>currentLevel := 3\<rparr>
               in (stateT, [triggerIntervention tabId stateT 3 (dsi stateT) None], [])))
         else
           (let (newLevel, suggestion) = deriveLevel state;
                (state2, msgs) =
                  (if newLevel \<noteq> currentLevel state then
                     (let stateL = state\<lparr>currentLevel := newLevel\<rparr>
                      in (stateL, [triggerIntervention tabId stateL newLevel (dsi stateL) suggestion]))
                   else
                     (case suggestion of
                        Some sg \<Rightarrow>
                          (if \<not> suggestionShown state
                           then (state\<lparr>suggestionShown := True\<rparr>, [sendSuggestion tabId (dsi state) sg])
                           else (state, []))
                      | None \<Rightarrow> (state, [])));
                state3 = (if js_lt (dsi state2) LEVEL_2_THRESHOLD
                          then state2\<lparr>suggestionShown := False\<rparr> else state2);
                state4 = state3\<lparr>scrollSpeed := Num 0, clickFrequency := Num 0,
                                directionChanges := Num 0, rageClickCount := Num 0\<rparr>
            in (state4, msgs,
                [((''dsi_'', tabId), SNum (dsi state4)),
                 ((''level_'', tabId), SNum (Num (real (currentLevel state4)))),
                 ((''entropy_'', tabId), SNum (Num (entropyScore state4))),
                 ((''inFlow_'', tabId), SBool (isInFlowZone (dsi state4)))])))"

subsection \<open>Message handlers on one tab's state\<close>

text \<open>
  The payload of \<^verbatim>\<open>BEHAVIOR_DATA\<close>; a field that is \<^verbatim>\<open>undefined\<close> is \<open>None\<close>. The
  \<^verbatim>\<open>timestamp\<close> field is sent by the monitor and never read by the handler.
\<close>

record BehaviorData =
  data_scrollSpeed :: "jsnum option"
  data_clickFrequency :: "jsnum option"
  data_pageType :: "string option"
  data_directionChanges :: "jsnum option"
  data_rageClickCount :: "jsnum option"
  data_timestamp :: "jsnum option"

definition handleBehaviorData_tab :: "real \<Rightarrow> TabState \<Rightarrow> BehaviorData \<Rightarrow> TabState" where
  "handleBehaviorData_tab now state0 data =
     (let state1 = (case data_scrollSpeed data of
                      Some v \<Rightarrow> state0\<lparr>scrollSpeed := Math_max (scrollSpeed state0) v\<rparr>
                    | None \<Rightarrow> state0);
          state2 = (case data_clickFrequency data of
                      Some v \<Rightarrow> state1\<lparr>clickFrequency := Math_max (clickFrequency state1) v\<rparr>
                    | None \<Rightarrow> state1);
          state3 = (case data_pageType data of
                      Some p \<Rightarrow> (if p \<noteq> [] then
                                   state2\<lparr>pageType := p, contextCoefficient := getContextCoefficient p\<rparr>
                                 else state2)
                    | None \<Rightarrow> state2);
          state4 = state3\<lparr>lastActivityTime := now\<rparr>;
          state5 = (case data_directionChanges data of
                      Some v \<Rightarrow> state4\<lparr>directionChanges := v\<rparr>
                    | None \<Rightarrow> state4)
      in (case data_rageClickCount data of
            Some v \<Rightarrow> state5\<lparr>rageClickCount := v\<rparr>
          | None \<Rightarrow> state5))"

text \<open>\<^verbatim>\<open>handleTherapyCompletion\<close>: the new state and the storage entries written.\<close>

definition handleTherapyCompletion_tab :: "nat \<Rightarrow> TabState \<Rightarrow> TabState \<times> (skey \<times> sval) list" where
  "handleTherapyCompletion_tab tabId state0 =
     (let state = state0\<lparr>isTherapyActive := False\<rparr>
      in if js_gt (dsi state) 50 then
           (let state1 = state\<lparr>dsi := Num 45, currentLevel := 0\<rparr>
            in (state1, [((''dsi_'', tabId), SNum (dsi state1)),
                         ((''level_'', tabId), SNum (Num (real (currentLevel state1))))]))
         else (state, []))"

text \<open>\<^verbatim>\<open>handleReaderModeExit\<close>.\<close>

definition handleReaderModeExit_tab :: "nat \<Rightarrow> TabState \<Rightarrow> TabState \<times> msg list \<times> (skey \<times> sval) list" where
  "handleReaderModeExit_tab tabId state0 =
     (let state = state0\<lparr>isReaderModeActive := False\<rparr>;
          targetDsiAfterExit = 40;
          state1 = (if js_gt (dsi state) targetDsiAfterExit
                    then state\<lparr>dsi := Num targetDsiAfterExit\<rparr> else state);
          newLevel = (if js_gt (dsi state1) LEVEL_3_THRESHOLD then 3
                      else if js_gt (dsi state1) LEVEL_2_THRESHOLD then 2
                      else if js_gt (dsi state1) LEVEL_1_THRESHOLD then 1 else 0);
          state2 = state1\<lparr>currentLevel := newLevel\<rparr>
      in (state2, [triggerIntervention tabId state2 (currentLevel state2) (dsi state2) None],
          [((''dsi_'', tabId), SNum (dsi state2)),
           ((''level_'', tabId), SNum (Num (real (currentLevel state2))))]))"

text \<open>
  The \<^verbatim>\<open>READER_MODE_STATE\<close> case of the message listener; \<open>active\<close> is \<open>False\<close> exactly when
  \<^verbatim>\<open>message.payload.active === false\<close>.
\<close>

definition READER_MODE_STATE_tab :: "nat \<Rightarrow> bool \<Rightarrow> TabState \<Rightarrow> TabState \<times> msg list \<times> (skey \<times> sval) list" where
  "READER_MODE_STATE_tab tabId active readerState0 =
     (if \<not> active then handleReaderModeExit_tab tabId readerState0
      else
        (let readerState = readerState0\<lparr>isReaderModeActive := True\<rparr>
         in if js_lt (dsi readerState) LEVEL_2_THRESHOLD then
              (let readerState1 = readerState\<lparr>dsi := Num (LEVEL_2_THRESHOLD + 5)\<rparr>
               in (readerState1,
                   [triggerIntervention tabId readerState1 2 (dsi readerState1) (Some strong)], []))
            else (readerState, [], [])))"

text \<open>The \<^verbatim>\<open>THERAPY_ACTIVE\<close> case: \<^verbatim>\<open>payload.active || false\<close>.\<close>

definition THERAPY_ACTIVE_tab :: "bool \<Rightarrow> TabState \<Rightarrow> TabState" where
  "THERAPY_ACTIVE_tab active therapyState = therapyState\<lparr>isTherapyActive := active\<rparr>"

text \<open>
  The \<^verbatim>\<open>DEBUG_SET_DSI\<close> case: the score is overwritten with the payload, unchecked, and
  a tick runs at once. A payload that carries no number reads as \<^verbatim>\<open>undefined\<close>, which
  the arithmetic and the comparisons of the tick treat like \<^verbatim>\<open>NaN\<close>.
\<close>

definition DEBUG_SET_DSI_tab :: "real \<Rightarrow> nat \<Rightarrow> jsnum \<Rightarrow> TabState \<Rightarrow> TabState \<times> msg list \<times> (skey \<times> sval) list" where
  "DEBUG_SET_DSI_tab now tabId v dbgState = updateDSI_tab now tabId (dbgState\<lparr>dsi := v\<rparr>)"

subsection \<open>The session registry: tab states, timers, storage\<close>

text \<open>
  \<open>tabStates\<close> and \<open>updateIntervals\<close> are the two global \<^verbatim>\<open>Map\<close>s of the worker. \<open>timers\<close>
  is the host's table of live intervals (interval id to the tab whose \<^verbatim>\<open>updateDSI\<close> it
  fires), \<open>nextIntervalId\<close> the id \<^verbatim>\<open>setInterval\<close> hands out next, \<open>storage\<close> is
  \<^verbatim>\<open>chrome.storage.local\<close>, and \<open>sent\<close> the log of messages sent to content scripts.
\<close>

record World =
  tabStates :: "nat \<rightharpoonup> TabState"
  updateIntervals :: "nat \<rightharpoonup> nat"
  timers :: "nat \<rightharpoonup> nat"
  nextIntervalId :: nat
  storage :: "skey \<rightharpoonup> sval"
  sent :: "msg list"

definition initialWorld :: World where
  "initialWorld =
     \<lparr> tabStates = Map.empty, updateIntervals = Map.empty, timers = Map.empty,
       nextIntervalId = 1, storage = Map.empty, sent = [] \<rparr>"

fun storage_set :: "(skey \<times> sval) list \<Rightarrow> (skey \<rightharpoonup> sval) \<Rightarrow> (skey \<rightharpoonup> sval)" where
  "storage_set [] st = st"
| "storage_set ((k, v) # kvs) st = storage_set kvs (st(k \<mapsto> v))"

fun storage_remove :: "skey list \<Rightarrow> (skey \<rightharpoonup> sval) \<Rightarrow> (skey \<rightharpoonup> sval)" where
  "storage_remove [] st = st"
| "storage_remove (k # ks) st = storage_remove ks (st(k := None))"

definition getTabState :: "real \<Rightarrow> nat \<Rightarrow> World \<Rightarrow> TabState \<times> World" where
  "getTabState now tabId w =
     (case tabStates w tabId of
        None \<Rightarrow> (initTabState now, w\<lparr>tabStates := (tabStates w)(tabId \<mapsto> initTabState now)\<rparr>)
      | Some state \<Rightarrow> (state, w))"

text \<open>Writing a handler's result on one tab back into the world.\<close>

definition commit :: "nat \<Rightarrow> TabState \<times> msg list \<times> (skey \<times> sval) list \<Rightarrow> World \<Rightarrow> World" where
  "commit tabId r w =
     (case r of (state, msgs, writes) \<Rightarrow>
        w\<lparr>tabStates := (tabStates w)(tabId \<mapsto> state),
          sent := sent w @ msgs,
          storage := storage_set writes (storage w)\<rparr>)"

definition updateDSI :: "real \<Rightarrow> nat \<Rightarrow> World \<Rightarrow> World" where
  "updateDSI now tabId w =
     (let (state, w1) = getTabState now tabId w
      in commit tabId (updateDSI_tab now tabId state) w1)"

definition startDSITimer :: "real \<Rightarrow> nat \<Rightarrow> World \<Rightarrow> World" where
  "startDSITimer now tabId w =
     (if updateIntervals w tabId \<noteq> None then w
      else
        (let w1 = w\<lparr>tabStates := (tabStates w)(tabId \<mapsto> initTabState now)\<rparr>;
             intervalId = nextIntervalId w1
         in w1\<lparr>timers := (timers w1)(intervalId \<mapsto> tabId),
               nextIntervalId := Suc intervalId,
               updateIntervals := (updateIntervals w1)(tabId \<mapsto> intervalId)\<rparr>))"

definition stopDSITimer :: "nat \<Rightarrow> World \<Rightarrow> World" where
  "stopDSITimer tabId w =
     (case updateIntervals w tabId of
        None \<Rightarrow> w
      | Some intervalId \<Rightarrow>
          (if intervalId \<noteq> 0 then
             w\<lparr>timers := (timers w)(intervalId := None),
               updateIntervals := (updateIntervals w)(tabId := None)\<rparr>
           else w))"

text \<open>The \<^verbatim>\<open>chrome.tabs.onRemoved\<close> listener.\<close>

definition onRemoved :: "nat \<Rightarrow> World \<Rightarrow> World" where
  "onRemoved tabId w =
     (let w1 = stopDSITimer tabId w;
          w2 = w1\<lparr>tabStates := (tabStates w1)(tabId := None)\<rparr>
      in w2\<lparr>storage := storage_remove [(''dsi_'', tabId), (''level_'', tabId)] (storage w2)\<rparr>)"

text \<open>An interval fires: the tick of its tab runs, if the interval is still live.\<close>

definition timerFires :: "real \<Rightarrow> nat \<Rightarrow> World \<Rightarrow> World" where
  "timerFires now intervalId w =
     (case timers w intervalId of
        None \<Rightarrow> w
      | Some tabId \<Rightarrow> updateDSI now tabId w)"

text \<open>
  The state-changing cases of the \<^verbatim>\<open>chrome.runtime.onMessage\<close> listener. \<^verbatim>\<open>GET_DSI\<close> only
  reads; \<^verbatim>\<open>CONTENT_READY\<close> and \<^verbatim>\<open>PAGE_INFO\<close> (page type from the URL) and the two LLM
  requests are not part of this development. A sender without a tab id (\<^verbatim>\<open>!tabId\<close>, which
  includes id \<open>0\<close>) is answered with an error and changes nothing.
\<close>

datatype message =
    BEHAVIOR_DATA BehaviorData
  | RESET_DSI
  | THERAPY_COMPLETED
  | THERAPY_ACTIVE bool
  | READER_MODE_STATE bool
  | DEBUG_SET_DSI jsnum

definition onMessage :: "real \<Rightarrow> nat \<Rightarrow> message \<Rightarrow> World \<Rightarrow> World" where
  "onMessage now tabId m w =
     (if tabId = 0 then w
      else
        (case m of
           RESET_DSI \<Rightarrow> w\<lparr>tabStates := (tabStates w)(tabId \<mapsto> initTabState now)\<rparr>
         | BEHAVIOR_DATA data \<Rightarrow>
             (let (state, w1) = getTabState now tabId w
              in commit tabId (handleBehaviorData_tab now state data, [], []) w1)
         | THERAPY_COMPLETED \<Rightarrow>
             (let (state, w1) = getTabState now tabId w;
                  (state1, writes) = handleTherapyCompletion_tab tabId state
              in commit tabId (state1, [], writes) w1)
         | THERAPY_ACTIVE active \<Rightarrow>
             (let (state, w1) = getTabState now tabId w
              in commit tabId (THERAPY_ACTIVE_tab active state, [], []) w1)
         | READER_MODE_STATE active \<Rightarrow>
             (let (state, w1) = getTabState now tabId w
              in commit tabId (READER_MODE_STATE_tab tabId active state) w1)
         | DEBUG_SET_DSI v \<Rightarrow>
             (let (state, w1) = getTabState now tabId w
              in commit tabId (DEBUG_SET_DSI_tab now tabId v state) w1)))"

text \<open>Events of the worker, each with the clock value at which it is handled.\<close>

datatype event =
    Message nat message
  | TimerFires nat
  | TabComplete nat
  | TabRemoved nat

fun step :: "real \<times> event \<Rightarrow> World \<Rightarrow> World" where
  "step (now, Message tabId m) w = onMessage now tabId m w"
| "step (now, TimerFires intervalId) w = timerFires now intervalId w"
| "step (now, TabComplete tabId) w = startDSITimer now tabId w"
| "step (now, TabRemoved tabId) w = onRemoved tabId w"

fun run :: "(real \<times> event) list \<Rightarrow> World \<Rightarrow> World" where
  "run [] w = w"
| "run (e # es) w = run es (step e w)"

subsection \<open>The behaviour monitor of the content script\<close>













subsection \<open>A session between ticks\<close>

text \<open>
  A standard-mode session over several ticks: before each tick (at clock \<open>now\<close>) the
  behaviour reports that arrived since the previous tick are handled, each at its own
  clock value. The result lists the state after every tick.
\<close>

fun tickTrace :: "nat \<Rightarrow> (real \<times> (real \<times> BehaviorData) list) list \<Rightarrow> TabState \<Rightarrow> TabState list" where
  "tickTrace tabId [] s = []"
| "tickTrace tabId ((now, reports) # rest) s =
     (let s1 = foldl (\<lambda>st (t, d). handleBehaviorData_tab t st d) s reports;
          s2 = fst (updateDSI_tab now tabId s1)
      in s2 # tickTrace tabId rest s2)"

subsection \<open>Out-of-range inputs\<close>

text \<open>A received number that is \<^verbatim>\<open>NaN\<close> or negative.\<close>

definition invalidInput :: "jsnum \<Rightarrow> bool" where
  "invalidInput v = (case v of NaN \<Rightarrow> True | Num x \<Rightarrow> x < 0)"

subsection \<open>Concrete sessions\<close>

text \<open>
  Sessions of tab 1 built from the initial state by the handlers above, used to evaluate
  the program at concrete inputs.
\<close>

definition level1Session :: TabState where
  "level1Session = fst (DEBUG_SET_DSI_tab 0 1 (Num 40) (initTabState 0))"

definition hystSession :: TabState where
  "hystSession = fst (DEBUG_SET_DSI_tab 0 1 (Num 30) level1Session)"

definition flowSession :: TabState where
  "flowSession = fst (DEBUG_SET_DSI_tab 0 1 (Num 50) (initTabState 0))"

definition calmSession :: TabState where
  "calmSession = fst (DEBUG_SET_DSI_tab 0 1 (Num 70) (initTabState 0))"

definition therapySession :: TabState where
  "therapySession =
     fst (updateDSI_tab 1000 1 (THERAPY_ACTIVE_tab True (fst (DEBUG_SET_DSI_tab 0 1 (Num 52) (initTabState 0)))))"

definition clickReport :: BehaviorData where
  "clickReport =
     \<lparr> data_scrollSpeed = Some (Num 0), data_clickFrequency = Some (Num 4),
       data_pageType = None, data_directionChanges = Some (Num 0),
       data_rageClickCount = Some (Num 0), data_timestamp = Some (Num 900) \<rparr>"

definition scrollReport :: BehaviorData where
  "scrollReport =
     \<lparr> data_scrollSpeed = Some (Num 100), data_clickFrequency = Some (Num 0),
       data_pageType = None, data_directionChanges = Some (Num 0),
       data_rageClickCount = Some (Num 0), data_timestamp = Some (Num 1900) \<rparr>"

definition directionReport :: BehaviorData where
  "directionReport =
     \<lparr> data_scrollSpeed = Some (Num 100), data_clickFrequency = Some (Num 0),
       data_pageType = None, data_directionChanges = Some (Num 3),
       data_rageClickCount = Some (Num 0), data_timestamp = Some (Num 500) \<rparr>"

definition badReport :: BehaviorData where
  "badReport =
     \<lparr> data_scrollSpeed = Some NaN, data_clickFrequency = Some (Num (- 3)),
       data_pageType = None, data_directionChanges = Some (Num (- 1)),
       data_rageClickCount = Some NaN, data_timestamp = Some (Num (- 5)) \<rparr>"

definition gentleSession :: TabState where
  "gentleSession = handleBehaviorData_tab 500 calmSession directionReport"

definition nanSession :: TabState where
  "nanSession = handleBehaviorData_tab 5000 flowSession badReport"

text \<open>Tab 1 is opened, ticks once and is closed.\<close>

definition closedTab :: World where
  "closedTab = onRemoved 1 (timerFires 1000 1 (startDSITimer 0 1 initialWorld))"






subsection \<open>The score range as a predicate on states and worlds\<close>

text \<open>
  A state is numeric when its score is a number and neither its context coefficient nor
  the decay multiplier of its page type is an inherited member.
\<close>

definition numeric :: "TabState \<Rightarrow> bool" where
  "numeric s = (dsi s \<noteq> NaN \<and> contextCoefficient s \<noteq> Inherited \<and> pageType s \<notin> set inheritedKeys)"

text \<open>
  An event is plain when the page type of a behaviour report, if it has one, does not name
  an inherited member, and the payload of \<^verbatim>\<open>DEBUG_SET_DSI\<close> is a number.
\<close>

fun plain :: "event \<Rightarrow> bool" where
  "plain (Message tabId (BEHAVIOR_DATA d)) =
     (case data_pageType d of None \<Rightarrow> True | Some p \<Rightarrow> p \<notin> set inheritedKeys)"
| "plain (Message tabId (DEBUG_SET_DSI v)) = (v \<noteq> NaN)"
| "plain _ = True"

definition bounded :: "TabState \<Rightarrow> bool" where
  "bounded s = (js_ge (dsi s) MIN_DSI \<and> js_le (dsi s) MAX_DSI)"

definition allBounded :: "World \<Rightarrow> bool" where
  "allBounded w = (\<forall>tid s. tabStates w tid = Some s \<longrightarrow> bounded s \<and> numeric s)"

section \<open>Properties\<close>

subsection \<open>Comparisons and arithmetic on JavaScript numbers\<close>

lemma js_gt_mono: "js_gt v t \<Longrightarrow> t' \<le> t \<Longrightarrow> js_gt v t'"
  by (cases v) simp_all

lemma clamp_range:
  "js_ge (Math_max (Num MIN_DSI) (Math_min (Num MAX_DSI) (Num y))) MIN_DSI
   \<and> js_le (Math_max (Num MIN_DSI) (Math_min (Num MAX_DSI) (Num y))) MAX_DSI"
  by simp

lemma clamp_ge:
  "t \<le> MAX_DSI \<Longrightarrow> js_ge v t \<Longrightarrow> js_ge (Math_max (Num MIN_DSI) (Math_min (Num MAX_DSI) v)) t"
  by (cases v) simp_all

lemma number_cases: "v \<noteq> NaN \<Longrightarrow> \<exists>x. v = Num x"
  by (cases v) simp_all

lemma multiplier_number:
  "p \<notin> set inheritedKeys \<Longrightarrow> toNumber (or_default (DECAY_MULTIPLIERS p)) \<noteq> NaN"
  by (simp add: DECAY_MULTIPLIERS_def or_default_def toNumber_def)

lemma coefficient_number:
  "c \<noteq> Inherited \<Longrightarrow> toNumber (or_default c) \<noteq> NaN"
  by (cases c) (simp_all add: or_default_def toNumber_def)

lemma getContextCoefficient_number:
  "p \<notin> set inheritedKeys \<Longrightarrow> getContextCoefficient p \<noteq> Inherited"
  by (simp add: getContextCoefficient_def CONTEXT_WEIGHTS_def or_default_def)

subsection \<open>What a tick keeps and what it computes\<close>

lemma activeDelta_snd:
  "snd (activeDelta c s) =
     (if isIdle s \<or> isDeepReading s then s\<lparr>isIdle := False, isDeepReading := False\<rparr> else s)"
  by (simp add: activeDelta_def Let_def)

lemma idleDelta_snd:
  "snd (idleDelta t s) =
     (if t < DECAY_DELAY then s
      else if (pageType s = ''document'' \<or> pageType s = ''news'') \<and> t > DEEP_READING_THRESHOLD
        then (if \<not> isDeepReading s then s\<lparr>isDeepReading := True\<rparr> else s)
      else (if \<not> isIdle s then s\<lparr>isIdle := True\<rparr> else s))"
  by (simp add: idleDelta_def Let_def)

lemma calc_snd_fields:
  "dsi (snd (calculateDSIDelta now s)) = dsi s"
  "isTherapyActive (snd (calculateDSIDelta now s)) = isTherapyActive s"
  "isReaderModeActive (snd (calculateDSIDelta now s)) = isReaderModeActive s"
  "currentLevel (snd (calculateDSIDelta now s)) = currentLevel s"
  "pageType (snd (calculateDSIDelta now s)) = pageType s"
  "contextCoefficient (snd (calculateDSIDelta now s)) = contextCoefficient s"
  "suggestionShown (snd (calculateDSIDelta now s)) = suggestionShown s"
  "entropyScore (snd (calculateDSIDelta now s)) = calculateEntropyScore s"
  by (simp_all add: calculateDSIDelta_def Let_def split_def activeDelta_snd idleDelta_snd)

lemma tick_dsi:
  "dsi (fst (updateDSI_tab now tabId s))
     = Math_max (Num MIN_DSI) (Math_min (Num MAX_DSI) (js_add (dsi s) (fst (calculateDSIDelta now s))))"
  by (simp add: updateDSI_tab_def Let_def split_def calc_snd_fields split: option.split)

lemma tick_keeps:
  "isTherapyActive (fst (updateDSI_tab now tabId s)) = isTherapyActive s"
  "isReaderModeActive (fst (updateDSI_tab now tabId s)) = isReaderModeActive s"
  "pageType (fst (updateDSI_tab now tabId s)) = pageType s"
  "contextCoefficient (fst (updateDSI_tab now tabId s)) = contextCoefficient s"
  by (simp_all add: updateDSI_tab_def Let_def split_def calc_snd_fields split: option.split)

lemma calc_therapy:
  "isTherapyActive s \<Longrightarrow>
     calculateDSIDelta now s = (therapyDelta s, s\<lparr>entropyScore := calculateEntropyScore s\<rparr>)"
  by (simp add: calculateDSIDelta_def Let_def therapyDelta_def)

lemma deriveLevel_fst:
  "fst (deriveLevel st) =
     (if isReaderModeActive st then (if js_gt (dsi st) LEVEL_3_THRESHOLD then 3 else 2)
      else if js_gt (dsi st) LEVEL_3_THRESHOLD then 3
      else if js_gt (dsi st) LEVEL_2_SUGGEST then 2
      else if js_gt (dsi st) LEVEL_2_THRESHOLD then 1
      else if js_gt (dsi st) LEVEL_1_THRESHOLD then 1
      else if currentLevel st = 1 \<and> js_gt (dsi st) 20 then 1
      else 0)"
  by (simp add: deriveLevel_def standardLevel_def Let_def)

lemma tick_level_general:
  "\<not> isTherapyActive s \<Longrightarrow>
     currentLevel (fst (updateDSI_tab now tabId s))
       = fst (deriveLevel ((snd (calculateDSIDelta now s))
                \<lparr>dsi := Math_max (Num MIN_DSI)
                          (Math_min (Num MAX_DSI) (js_add (dsi s) (fst (calculateDSIDelta now s))))\<rparr>))"
  by (simp add: updateDSI_tab_def Let_def split_def calc_snd_fields split: option.split)

text \<open>Outside therapy, the level after a tick as a function of the score after the tick.\<close>

lemma tick_level:
  assumes "\<not> isTherapyActive s"
  shows "currentLevel (fst (updateDSI_tab now tabId s)) =
     (if isReaderModeActive s
        then (if js_gt (dsi (fst (updateDSI_tab now tabId s))) LEVEL_3_THRESHOLD then 3 else 2)
      else if js_gt (dsi (fst (updateDSI_tab now tabId s))) LEVEL_3_THRESHOLD then 3
      else if js_gt (dsi (fst (updateDSI_tab now tabId s))) LEVEL_2_SUGGEST then 2
      else if js_gt (dsi (fst (updateDSI_tab now tabId s))) LEVEL_1_THRESHOLD then 1
      else if currentLevel s = 1 \<and> js_gt (dsi (fst (updateDSI_tab now tabId s))) 20 then 1
      else 0)"
proof -
  define D where "D = dsi (fst (updateDSI_tab now tabId s))"
  have "currentLevel (fst (updateDSI_tab now tabId s))
          = fst (deriveLevel ((snd (calculateDSIDelta now s))\<lparr>dsi := D\<rparr>))"
    unfolding D_def tick_dsi by (rule tick_level_general [OF assms])
  moreover have "js_gt D LEVEL_2_THRESHOLD \<Longrightarrow> js_gt D LEVEL_1_THRESHOLD"
    using js_gt_mono [of D 65 35] by simp
  ultimately show ?thesis
    unfolding deriveLevel_fst D_def [symmetric] by (auto simp: calc_snd_fields)
qed

subsection \<open>Boundedness of the score\<close>

lemma level1Floor_number:
  "dsi st = Num x \<Longrightarrow> level1Floor st (Num d) \<noteq> NaN"
  by (simp add: level1Floor_def)

lemma activeDelta_number:
  "toNumber c = Num k \<Longrightarrow> fst (activeDelta c s) \<noteq> NaN"
  by (simp add: activeDelta_def Let_def)

lemma idleDelta_number:
  assumes "dsi s = Num x" and "toNumber (or_default (DECAY_MULTIPLIERS (pageType s))) = Num m"
  shows "fst (idleDelta t s) \<noteq> NaN"
  using assms by (simp add: idleDelta_def Let_def)

lemma calc_number:
  assumes "numeric s"
  shows "fst (calculateDSIDelta now s) \<noteq> NaN"
proof -
  from assms obtain x where x: "dsi s = Num x"
    using number_cases by (auto simp: numeric_def)
  from assms obtain k where k: "toNumber (or_default (contextCoefficient s)) = Num k"
    using coefficient_number number_cases by (auto simp: numeric_def)
  from assms obtain m where m: "toNumber (or_default (DECAY_MULTIPLIERS (pageType s))) = Num m"
    using multiplier_number number_cases by (auto simp: numeric_def)
  let ?st = "s\<lparr>entropyScore := calculateEntropyScore s\<rparr>"
  have st: "dsi ?st = Num x" "toNumber (or_default (DECAY_MULTIPLIERS (pageType ?st))) = Num m"
    by (simp_all add: x m)
  show ?thesis
  proof (cases "isTherapyActive s")
    case True
    then show ?thesis by (simp add: calc_therapy therapyDelta_def x)
  next
    case nt: False
    show ?thesis
    proof (cases "isReaderModeActive s")
      case True
      then show ?thesis using nt x m
        by (simp add: calculateDSIDelta_def Let_def readerDelta_def)
    next
      case nr: False
      obtain a where a: "fst (activeDelta (or_default (contextCoefficient s)) ?st) = Num a"
        using activeDelta_number [OF k] number_cases by blast
      obtain i where i: "fst (idleDelta (now - lastActivityTime s) ?st) = Num i"
        using idleDelta_number [OF st] number_cases by blast
      have da: "dsi (snd (activeDelta (or_default (contextCoefficient s)) ?st)) = Num x"
        by (simp add: activeDelta_snd x)
      have di: "dsi (snd (idleDelta (now - lastActivityTime s) ?st)) = Num x"
        by (simp add: idleDelta_snd x)
      show ?thesis
        using nt nr level1Floor_number [OF da, of a] level1Floor_number [OF di, of i]
        by (simp add: calculateDSIDelta_def Let_def split_def a i)
    qed
  qed
qed

lemma tick_bounded:
  assumes "numeric s"
  shows "bounded (fst (updateDSI_tab now tabId s))"
proof -
  from assms obtain x where x: "dsi s = Num x"
    using number_cases by (auto simp: numeric_def)
  obtain d where d: "fst (calculateDSIDelta now s) = Num d"
    using calc_number [OF assms] number_cases by blast
  show ?thesis unfolding bounded_def tick_dsi x d by simp
qed

lemma tick_numeric:
  assumes "numeric s"
  shows "numeric (fst (updateDSI_tab now tabId s))"
  using assms tick_bounded [OF assms, of now tabId]
  by (cases "dsi (fst (updateDSI_tab now tabId s))") (simp_all add: numeric_def bounded_def tick_keeps)

lemmas tick_eval =
  updateDSI_tab_def calculateDSIDelta_def calculateEntropyScore_def activeDelta_def idleDelta_def
  level1Floor_def therapyDelta_def readerDelta_def deriveLevel_def standardLevel_def
  isInFlowZone_def triggerIntervention_def sendSuggestion_def or_default_def toNumber_def
  DECAY_MULTIPLIERS_def inheritedKeys_def Let_def






text \<open>
  The same bound along every run of the worker from its start in which every event is
  plain: every state held in \<open>tabStates\<close> is numeric and its score is within range.
\<close>

lemma init_good: "bounded (initTabState now) \<and> numeric (initTabState now)"
  by (simp add: bounded_def numeric_def initTabState_def inheritedKeys_def)

lemma bounded_number: "bounded s \<Longrightarrow> dsi s \<noteq> NaN"
  by (cases "dsi s") (simp_all add: bounded_def)

lemma handleBehaviorData_good:
  assumes "bounded s \<and> numeric s"
    and "case data_pageType d of None \<Rightarrow> True | Some p \<Rightarrow> p \<notin> set inheritedKeys"
  shows "bounded (handleBehaviorData_tab now s d) \<and> numeric (handleBehaviorData_tab now s d)"
  using assms getContextCoefficient_number
  by (auto simp: bounded_def numeric_def handleBehaviorData_tab_def Let_def split: option.splits)

lemma handlers_good:
  assumes "bounded s \<and> numeric s"
  shows "bounded (fst (handleTherapyCompletion_tab tabId s)) \<and> numeric (fst (handleTherapyCompletion_tab tabId s))"
    and "bounded (THERAPY_ACTIVE_tab a s) \<and> numeric (THERAPY_ACTIVE_tab a s)"
    and "bounded (fst (READER_MODE_STATE_tab tabId a s)) \<and> numeric (fst (READER_MODE_STATE_tab tabId a s))"
  using assms
  by (simp_all add: bounded_def numeric_def handleTherapyCompletion_tab_def THERAPY_ACTIVE_tab_def
        READER_MODE_STATE_tab_def handleReaderModeExit_tab_def Let_def)

lemma tick_good:
  "numeric s \<Longrightarrow> bounded (fst (updateDSI_tab now tabId s)) \<and> numeric (fst (updateDSI_tab now tabId s))"
  by (simp add: tick_bounded tick_numeric)

lemma debug_good:
  assumes "bounded s \<and> numeric s" and "v \<noteq> NaN"
  shows "bounded (fst (DEBUG_SET_DSI_tab now tabId v s)) \<and> numeric (fst (DEBUG_SET_DSI_tab now tabId v s))"
  unfolding DEBUG_SET_DSI_tab_def using assms by (intro tick_good) (simp add: numeric_def)

lemma getTabState_bounded:
  "allBounded w \<Longrightarrow>
     (bounded (fst (getTabState now tabId w)) \<and> numeric (fst (getTabState now tabId w)))
     \<and> allBounded (snd (getTabState now tabId w))"
  using init_good by (auto simp: getTabState_def allBounded_def split: option.splits)

lemma commit_bounded:
  "allBounded w \<Longrightarrow> bounded (fst r) \<and> numeric (fst r) \<Longrightarrow> allBounded (commit tabId r w)"
  by (auto simp: commit_def allBounded_def split: prod.splits)

lemma step_bounded:
  assumes w: "allBounded w" and p: "plain ev"
  shows "allBounded (step (now, ev) w)"
proof (cases ev)
  case (Message tabId m)
  note g = getTabState_bounded [OF w, of now tabId]
  show ?thesis
  proof (cases m)
    case (BEHAVIOR_DATA d)
    then show ?thesis using g w p handleBehaviorData_good [of "fst (getTabState now tabId w)" d now]
      by (simp add: Message onMessage_def split_def Let_def commit_bounded)
  next
    case RESET_DSI
    then show ?thesis using w init_good
      by (auto simp: Message onMessage_def allBounded_def)
  next
    case THERAPY_COMPLETED
    then show ?thesis using g w
      by (simp add: Message onMessage_def split_def Let_def commit_bounded handlers_good)
  next
    case (THERAPY_ACTIVE a)
    then show ?thesis using g w
      by (simp add: Message onMessage_def split_def Let_def commit_bounded handlers_good)
  next
    case (READER_MODE_STATE a)
    then show ?thesis using g w
      by (simp add: Message onMessage_def split_def Let_def commit_bounded handlers_good)
  next
    case (DEBUG_SET_DSI v)
    then show ?thesis using g w p
      by (simp add: Message onMessage_def split_def Let_def commit_bounded debug_good)
  qed
next
  case (TimerFires i)
  show ?thesis
  proof (cases "timers w i")
    case None
    then show ?thesis using w by (simp add: TimerFires timerFires_def)
  next
    case (Some tabId)
    then show ?thesis using getTabState_bounded [OF w, of now tabId]
      by (simp add: TimerFires timerFires_def updateDSI_def split_def Let_def commit_bounded tick_good)
  qed
next
  case (TabComplete tabId)
  then show ?thesis using w init_good
    by (auto simp: startDSITimer_def allBounded_def Let_def)
next
  case (TabRemoved tabId)
  then show ?thesis using w
    by (auto simp: onRemoved_def stopDSITimer_def allBounded_def Let_def split: option.splits if_splits)
qed

lemma run_bounded:
  "allBounded w \<Longrightarrow> list_all (\<lambda>e. plain (snd e)) es \<Longrightarrow> allBounded (run es w)"
proof (induction es arbitrary: w)
  case Nil
  then show ?case by simp
next
  case (Cons e es)
  obtain now ev where e: "e = (now, ev)" by (cases e)
  from Cons.prems have "allBounded (step (now, ev) w)" by (simp add: e step_bounded)
  with Cons show ?case by (simp add: e)
qed

lemma reachable_bounded:
  assumes "list_all (\<lambda>e. plain (snd e)) es" and "tabStates (run es initialWorld) tabId = Some s"
  shows "js_ge (dsi s) MIN_DSI \<and> js_le (dsi s) MAX_DSI"
proof -
  have "allBounded initialWorld" by (simp add: allBounded_def initialWorld_def)
  then have "allBounded (run es initialWorld)" using assms(1) by (rule run_bounded)
  with assms(2) show ?thesis by (simp add: allBounded_def bounded_def)
qed

subsection \<open>Mode priority\<close>

text \<open>
  Claim C2. A tick that runs while \<^verbatim>\<open>isTherapyActive\<close> is set ends with level 3 whatever
  the score is, and runs nothing but the therapy branch: the delta is the therapy decay,
  the only fields written are the entropy, the clamped score and the level, the behaviour
  counters are not reset, nothing is persisted, and the only message is the level-3
  intervention, sent when the level was not 3 before.
\<close>

theorem C2_therapy_lock:
  assumes "isTherapyActive s"
  shows "currentLevel (fst (updateDSI_tab now tabId s)) = 3
       \<and> updateDSI_tab now tabId s =
           (s\<lparr>entropyScore := calculateEntropyScore s,
              dsi := Math_max (Num MIN_DSI) (Math_min (Num MAX_DSI) (js_add (dsi s) (therapyDelta s))),
              currentLevel := 3\<rparr>,
            if currentLevel s = 3 then []
            else [INTERVENTION tabId 3
                    (Math_max (Num MIN_DSI) (Math_min (Num MAX_DSI) (js_add (dsi s) (therapyDelta s))))
                    None (calculateEntropyScore s)
                    (isInFlowZone
                      (Math_max (Num MIN_DSI) (Math_min (Num MAX_DSI) (js_add (dsi s) (therapyDelta s)))))
                    (pageType s)],
            [])"
  using assms
  by (simp add: updateDSI_tab_def Let_def calc_therapy triggerIntervention_def therapyDelta_def)

theorem C2_therapy_lock_witness:
  "isTherapyActive ((initTabState 0)\<lparr>dsi := Num 90, isTherapyActive := True\<rparr>)
   \<and> currentLevel (fst (updateDSI_tab 1000 1 ((initTabState 0)\<lparr>dsi := Num 90, isTherapyActive := True\<rparr>))) = 3"
  using C2_therapy_lock [of "(initTabState 0)\<lparr>dsi := Num 90, isTherapyActive := True\<rparr>" 1000 1]
  by (simp add: initTabState_def)

text \<open>
  Claim C3. A tick that runs while reader mode is active and therapy is not ends with
  level 3 when the score after the tick exceeds 85 and with level 2 otherwise; so the
  level is at least 2.
\<close>

theorem C3_reader_floor:
  assumes "isReaderModeActive s" and "\<not> isTherapyActive s"
  shows "currentLevel (fst (updateDSI_tab now tabId s))
           = (if js_gt (dsi (fst (updateDSI_tab now tabId s))) LEVEL_3_THRESHOLD then 3 else 2)
         \<and> 2 \<le> currentLevel (fst (updateDSI_tab now tabId s))"
  using assms by (simp add: tick_level)

theorem C3_reader_floor_witness:
  "isReaderModeActive ((initTabState 0)\<lparr>dsi := Num 10, isReaderModeActive := True\<rparr>)
   \<and> \<not> isTherapyActive ((initTabState 0)\<lparr>dsi := Num 10, isReaderModeActive := True\<rparr>)
   \<and> 2 \<le> currentLevel (fst (updateDSI_tab 1000 1 ((initTabState 0)\<lparr>dsi := Num 10, isReaderModeActive := True\<rparr>)))"
  using C3_reader_floor [of "(initTabState 0)\<lparr>dsi := Num 10, isReaderModeActive := True\<rparr>" 1000 1]
  by (simp add: initTabState_def)

subsection \<open>The concrete sessions, evaluated\<close>

lemma level1Session_eq:
  "level1Session = (initTabState 0)\<lparr>dsi := Num 40, currentLevel := 1\<rparr>"
  by (simp add: level1Session_def DEBUG_SET_DSI_tab_def initTabState_def tick_eval)

lemma hystSession_eq:
  "hystSession = (initTabState 0)\<lparr>dsi := Num 30, currentLevel := 1\<rparr>"
  by (simp add: hystSession_def level1Session_eq DEBUG_SET_DSI_tab_def initTabState_def tick_eval)

lemma flowSession_eq:
  "flowSession = (initTabState 0)\<lparr>dsi := Num 50, currentLevel := 1\<rparr>"
  by (simp add: flowSession_def DEBUG_SET_DSI_tab_def initTabState_def tick_eval)

lemma calmSession_eq:
  "calmSession = (initTabState 0)\<lparr>dsi := Num 70, currentLevel := 1\<rparr>"
  by (simp add: calmSession_def DEBUG_SET_DSI_tab_def initTabState_def tick_eval)

lemma therapySession_eq:
  "therapySession = (initTabState 0)\<lparr>dsi := Num 46.4, currentLevel := 3, isTherapyActive := True\<rparr>"
  by (simp add: therapySession_def THERAPY_ACTIVE_tab_def DEBUG_SET_DSI_tab_def initTabState_def tick_eval)

lemma gentleSession_eq:
  "gentleSession = (initTabState 0)\<lparr>dsi := Num 70, currentLevel := 1, lastActivityTime := 500,
      scrollSpeed := Num 100, directionChanges := Num 3\<rparr>"
  by (simp add: gentleSession_def calmSession_eq directionReport_def handleBehaviorData_tab_def
        initTabState_def Let_def)

lemma nanSession_eq:
  "nanSession = (initTabState 0)\<lparr>dsi := Num 50, currentLevel := 1, lastActivityTime := 5000,
      scrollSpeed := NaN, directionChanges := Num (- 1), rageClickCount := NaN\<rparr>"
  by (simp add: nanSession_def flowSession_eq badReport_def handleBehaviorData_tab_def
        initTabState_def Let_def)


lemma hyst_trace:
  "map dsi (tickTrace 1 [(1000, [(900, clickReport)]), (2000, [(1900, scrollReport)])] hystSession)
     = [Num 32, Num 31.5]
   \<and> map currentLevel (tickTrace 1 [(1000, [(900, clickReport)]), (2000, [(1900, scrollReport)])] hystSession)
     = [1, 1]"
  by (simp add: hystSession_eq clickReport_def scrollReport_def handleBehaviorData_tab_def
        initTabState_def tick_eval)

lemma calm_tick:
  "dsi (fst (updateDSI_tab 1000 1 calmSession)) = Num 70
   \<and> currentLevel (fst (updateDSI_tab 1000 1 calmSession)) = 1
   \<and> fst (snd (updateDSI_tab 1000 1 calmSession)) = [SUGGESTION 1 (Num 70) gentle]"
  by (simp add: calmSession_eq initTabState_def tick_eval)

lemma gentle_tick:
  "dsi (fst (updateDSI_tab 1000 1 gentleSession)) = Num 75
   \<and> currentLevel (fst (updateDSI_tab 1000 1 gentleSession)) = 2
   \<and> fst (snd (updateDSI_tab 1000 1 gentleSession))
       = [INTERVENTION 1 2 (Num 75) (Some strong) 0.5 False ''other'']"
  by (simp add: gentleSession_eq initTabState_def tick_eval)

subsection \<open>Hysteresis of level 1\<close>

lemma tick_flags:
  "isTherapyActive (fst (updateDSI_tab now tabId s)) = isTherapyActive s"
  "isReaderModeActive (fst (updateDSI_tab now tabId s)) = isReaderModeActive s"
  by (simp_all add: updateDSI_tab_def Let_def split_def calc_snd_fields split: option.split)

lemma handleBehaviorData_keeps:
  "dsi (handleBehaviorData_tab now s d) = dsi s"
  "currentLevel (handleBehaviorData_tab now s d) = currentLevel s"
  "isTherapyActive (handleBehaviorData_tab now s d) = isTherapyActive s"
  "isReaderModeActive (handleBehaviorData_tab now s d) = isReaderModeActive s"
  "suggestionShown (handleBehaviorData_tab now s d) = suggestionShown s"
  "lastActivityTime (handleBehaviorData_tab now s d) = now"
  by (simp_all add: handleBehaviorData_tab_def Let_def split: option.split)

lemma reports_keep:
  "currentLevel (foldl (\<lambda>st (t, d). handleBehaviorData_tab t st d) s reports) = currentLevel s
   \<and> isTherapyActive (foldl (\<lambda>st (t, d). handleBehaviorData_tab t st d) s reports) = isTherapyActive s
   \<and> isReaderModeActive (foldl (\<lambda>st (t, d). handleBehaviorData_tab t st d) s reports) = isReaderModeActive s
   \<and> dsi (foldl (\<lambda>st (t, d). handleBehaviorData_tab t st d) s reports) = dsi s"
  by (induction reports arbitrary: s) (simp_all add: split_def handleBehaviorData_keeps)

lemma tick_from_level1:
  assumes "\<not> isTherapyActive s" and "\<not> isReaderModeActive s" and "currentLevel s = 1"
  shows "(currentLevel (fst (updateDSI_tab now tabId s)) = 0)
           = (\<not> js_gt (dsi (fst (updateDSI_tab now tabId s))) 20)"
    and "js_gt (dsi (fst (updateDSI_tab now tabId s))) 20
           \<Longrightarrow> js_lt (dsi (fst (updateDSI_tab now tabId s))) LEVEL_1_THRESHOLD
           \<Longrightarrow> currentLevel (fst (updateDSI_tab now tabId s)) = 1"
proof -
  define D where "D = dsi (fst (updateDSI_tab now tabId s))"
  have m: "js_gt D LEVEL_3_THRESHOLD \<Longrightarrow> js_gt D 20" "js_gt D LEVEL_2_SUGGEST \<Longrightarrow> js_gt D 20"
    "js_gt D LEVEL_1_THRESHOLD \<Longrightarrow> js_gt D 20"
    "js_lt D LEVEL_1_THRESHOLD \<Longrightarrow> \<not> js_gt D LEVEL_3_THRESHOLD
       \<and> \<not> js_gt D LEVEL_2_SUGGEST \<and> \<not> js_gt D LEVEL_1_THRESHOLD"
    by (cases D; simp)+
  have l: "currentLevel (fst (updateDSI_tab now tabId s)) =
     (if js_gt D LEVEL_3_THRESHOLD then 3 else if js_gt D LEVEL_2_SUGGEST then 2
      else if js_gt D LEVEL_1_THRESHOLD then 1 else if js_gt D 20 then 1 else 0)"
    using tick_level [OF assms(1), of now tabId] assms(2,3) by (simp add: D_def)
  show "(currentLevel (fst (updateDSI_tab now tabId s)) = 0)
           = (\<not> js_gt (dsi (fst (updateDSI_tab now tabId s))) 20)"
    unfolding D_def [symmetric] l using m by auto
  show "js_gt (dsi (fst (updateDSI_tab now tabId s))) 20
           \<Longrightarrow> js_lt (dsi (fst (updateDSI_tab now tabId s))) LEVEL_1_THRESHOLD
           \<Longrightarrow> currentLevel (fst (updateDSI_tab now tabId s)) = 1"
    unfolding D_def [symmetric] l using m by auto
qed

lemma trace_level1:
  assumes "\<not> isTherapyActive s" and "\<not> isReaderModeActive s" and "currentLevel s = 1"
    and "list_all (\<lambda>s'. js_gt (dsi s') 20 \<and> js_lt (dsi s') LEVEL_1_THRESHOLD) (tickTrace tabId inputs s)"
  shows "list_all (\<lambda>s'. currentLevel s' = 1) (tickTrace tabId inputs s)"
  using assms
proof (induction inputs arbitrary: s)
  case Nil
  then show ?case by simp
next
  case (Cons a inputs)
  obtain now reports where a: "a = (now, reports)" by (cases a)
  define s1 where "s1 = foldl (\<lambda>st (t, d). handleBehaviorData_tab t st d) s reports"
  define s2 where "s2 = fst (updateDSI_tab now tabId s1)"
  have tr: "tickTrace tabId (a # inputs) s = s2 # tickTrace tabId inputs s2"
    by (simp add: a s1_def s2_def Let_def)
  have s1: "\<not> isTherapyActive s1" "\<not> isReaderModeActive s1" "currentLevel s1 = 1"
    using Cons.prems(1-3) reports_keep [of s reports] by (simp_all add: s1_def)
  have rng: "js_gt (dsi s2) 20" "js_lt (dsi s2) LEVEL_1_THRESHOLD"
    and rest: "list_all (\<lambda>s'. js_gt (dsi s') 20 \<and> js_lt (dsi s') LEVEL_1_THRESHOLD) (tickTrace tabId inputs s2)"
    using Cons.prems(4) by (simp_all add: tr)
  have l2: "currentLevel s2 = 1"
    unfolding s2_def using tick_from_level1(2) [OF s1] rng by (simp add: s2_def)
  have f2: "\<not> isTherapyActive s2" "\<not> isReaderModeActive s2"
    using s1 by (simp_all add: s2_def tick_flags)
  from Cons.IH [OF f2 l2 rest] l2 show ?case by (simp add: tr)
qed

text \<open>
  The floor of step 4: in standard mode a numeric session at level 1 whose score is at
  least 25 still has a score of at least 25 after the tick.
\<close>

lemma level1Floor_ge:
  "currentLevel st = 1 \<Longrightarrow> js_ge (dsi st) 25 \<Longrightarrow> delta \<noteq> NaN
     \<Longrightarrow> js_ge (js_add (dsi st) (level1Floor st delta)) 25"
  by (cases "dsi st"; cases delta) (simp_all add: level1Floor_def)

lemma calc_standard_fst:
  "\<not> isTherapyActive s \<Longrightarrow> \<not> isReaderModeActive s \<Longrightarrow>
     \<exists>delta. fst (calculateDSIDelta now s) = level1Floor (snd (calculateDSIDelta now s)) delta"
  by (auto simp: calculateDSIDelta_def Let_def split_def)

lemma level1_floor_holds:
  assumes "\<not> isTherapyActive s" and "\<not> isReaderModeActive s"
    and "currentLevel s = 1" and "js_ge (dsi s) 25" and "numeric s"
  shows "js_ge (dsi (fst (updateDSI_tab now tabId s))) 25"
proof -
  obtain delta where d: "fst (calculateDSIDelta now s) = level1Floor (snd (calculateDSIDelta now s)) delta"
    using calc_standard_fst [OF assms(1,2)] by blast
  have n: "level1Floor (snd (calculateDSIDelta now s)) delta \<noteq> NaN"
    using calc_number [OF assms(5), of now] by (simp add: d)
  have "js_ge (js_add (dsi s) (fst (calculateDSIDelta now s))) 25"
  proof (cases delta)
    case (Num r)
    have "js_ge (js_add (dsi (snd (calculateDSIDelta now s)))
                  (level1Floor (snd (calculateDSIDelta now s)) delta)) 25"
      by (rule level1Floor_ge) (simp_all add: calc_snd_fields assms Num)
    then show ?thesis by (simp add: d calc_snd_fields)
  next
    case NaN
    then show ?thesis using n by (simp add: level1Floor_def split: if_splits)
  qed
  then show ?thesis unfolding tick_dsi by (rule clamp_ge [rotated]) simp
qed

text \<open>
  Claim C4, as amended. In standard mode (neither therapy nor reader mode), from level 1,
  a tick sets the level to 0 exactly when the score after the tick is at or below the exit
  threshold 20 (not only when it is strictly below it), that is, exactly when the
  comparison \<^verbatim>\<open>dsi > 20\<close> of the code fails; and along any sequence of ticks,
  with any behaviour reports in between, whose scores after the tick all lie strictly
  between 20 and the entry threshold 35, the level stays 1 after every tick.
\<close>

theorem C4_hysteresis:
  assumes "\<not> isTherapyActive s" and "\<not> isReaderModeActive s" and "currentLevel s = 1"
  shows "(currentLevel (fst (updateDSI_tab now tabId s)) = 0)
           = (\<not> js_gt (dsi (fst (updateDSI_tab now tabId s))) 20)
       \<and> (dsi (fst (updateDSI_tab now tabId s)) \<noteq> NaN \<longrightarrow>
            (currentLevel (fst (updateDSI_tab now tabId s)) = 0)
              = js_le (dsi (fst (updateDSI_tab now tabId s))) 20)
       \<and> (list_all (\<lambda>s'. js_gt (dsi s') 20 \<and> js_lt (dsi s') LEVEL_1_THRESHOLD) (tickTrace tabId inputs s)
            \<longrightarrow> list_all (\<lambda>s'. currentLevel s' = 1) (tickTrace tabId inputs s))"
proof -
  have "dsi (fst (updateDSI_tab now tabId s)) \<noteq> NaN \<Longrightarrow>
          (\<not> js_gt (dsi (fst (updateDSI_tab now tabId s))) 20)
            = js_le (dsi (fst (updateDSI_tab now tabId s))) 20"
    by (cases "dsi (fst (updateDSI_tab now tabId s))") auto
  then show ?thesis
    using tick_from_level1(1) [OF assms, of now tabId] trace_level1 [OF assms] by blast
qed

text \<open>
  The amended claim at a session at level 1 with score 30: an idle tick leaves the score at
  30, above 20, and the level is not 0; with reports in between, a click burst raises the
  score to 32, orderly scrolling lowers it to 31.5, and the level is 1 after both ticks.
\<close>

theorem C4_hysteresis_witness:
  "\<not> isTherapyActive hystSession \<and> \<not> isReaderModeActive hystSession \<and> currentLevel hystSession = 1
   \<and> dsi (fst (updateDSI_tab 1000 1 hystSession)) = Num 30
   \<and> dsi (fst (updateDSI_tab 1000 1 hystSession)) \<noteq> NaN
   \<and> \<not> js_le (dsi (fst (updateDSI_tab 1000 1 hystSession))) 20
   \<and> currentLevel (fst (updateDSI_tab 1000 1 hystSession)) \<noteq> 0
   \<and> map dsi (tickTrace 1 [(1000, [(900, clickReport)]), (2000, [(1900, scrollReport)])] hystSession)
       = [Num 32, Num 31.5]
   \<and> list_all (\<lambda>s'. js_gt (dsi s') 20 \<and> js_lt (dsi s') LEVEL_1_THRESHOLD)
        (tickTrace 1 [(1000, [(900, clickReport)]), (2000, [(1900, scrollReport)])] hystSession)
   \<and> list_all (\<lambda>s'. currentLevel s' = 1)
        (tickTrace 1 [(1000, [(900, clickReport)]), (2000, [(1900, scrollReport)])] hystSession)"
proof -
  have f: "\<not> isTherapyActive hystSession" "\<not> isReaderModeActive hystSession" "currentLevel hystSession = 1"
    by (simp_all add: hystSession_eq initTabState_def)
  have t: "dsi (fst (updateDSI_tab 1000 1 hystSession)) = Num 30"
    by (simp add: hystSession_eq initTabState_def tick_eval)
  have d: "map dsi (tickTrace 1 [(1000, [(900, clickReport)]), (2000, [(1900, scrollReport)])] hystSession)
             = [Num 32, Num 31.5]"
    using hyst_trace by simp
  then have r: "list_all (\<lambda>s'. js_gt (dsi s') 20 \<and> js_lt (dsi s') LEVEL_1_THRESHOLD)
        (tickTrace 1 [(1000, [(900, clickReport)]), (2000, [(1900, scrollReport)])] hystSession)"
    by (auto simp: list_all_iff)
  note c = C4_hysteresis [OF f, of 1000 1 "[(1000, [(900, clickReport)]), (2000, [(1900, scrollReport)])]"]
  from c r
  have l: "list_all (\<lambda>s'. currentLevel s' = 1)
        (tickTrace 1 [(1000, [(900, clickReport)]), (2000, [(1900, scrollReport)])] hystSession)"
    by blast
  from c t have z: "currentLevel (fst (updateDSI_tab 1000 1 hystSession)) \<noteq> 0"
    by simp
  from f t z d r l show ?thesis by simp
qed

text \<open>
  The claim as stated fails at the boundary: a session at level 1 in standard mode whose
  score is set to exactly 20 goes back to level 0 on the tick although its score has not
  fallen strictly below 20.
\<close>

theorem C4_counterexample:
  "\<not> isTherapyActive level1Session \<and> \<not> isReaderModeActive level1Session
   \<and> currentLevel level1Session = 1
   \<and> currentLevel (fst (DEBUG_SET_DSI_tab 0 1 (Num 20) level1Session)) = 0
   \<and> dsi (fst (DEBUG_SET_DSI_tab 0 1 (Num 20) level1Session)) = Num 20
   \<and> \<not> js_lt (dsi (fst (DEBUG_SET_DSI_tab 0 1 (Num 20) level1Session))) 20"
  by (simp add: level1Session_eq DEBUG_SET_DSI_tab_def initTabState_def tick_eval)

subsection \<open>Therapy completion\<close>

text \<open>
  Claim C5, as amended. \<^verbatim>\<open>handleTherapyCompletion\<close> clears the therapy flag in every
  state. Only when the score at that moment is above 50 does it set the score to 45 and
  the level to 0 (and persist both); when the score is 50 or less, score and level are
  left as they are and nothing is persisted. The handler is synchronous, so its effect is
  in place before the next tick.
\<close>

theorem C5_therapy_completion:
  "isTherapyActive (fst (handleTherapyCompletion_tab tabId s)) = False
   \<and> (if js_gt (dsi s) 50
        then dsi (fst (handleTherapyCompletion_tab tabId s)) = Num 45
           \<and> currentLevel (fst (handleTherapyCompletion_tab tabId s)) = 0
           \<and> snd (handleTherapyCompletion_tab tabId s)
               = [((''dsi_'', tabId), SNum (Num 45)), ((''level_'', tabId), SNum (Num 0))]
        else dsi (fst (handleTherapyCompletion_tab tabId s)) = dsi s
           \<and> currentLevel (fst (handleTherapyCompletion_tab tabId s)) = currentLevel s
           \<and> snd (handleTherapyCompletion_tab tabId s) = [])"
  by (simp add: handleTherapyCompletion_tab_def Let_def)

text \<open>
  The claim as stated fails for a session whose score is 50 or less when therapy
  completes: therapy started at score 52 has decayed the score to 46.4 after one tick;
  completion then leaves the score at 46.4 and the level at 3.
\<close>

theorem C5_counterexample:
  "isTherapyActive therapySession
   \<and> \<not> isTherapyActive (fst (handleTherapyCompletion_tab 1 therapySession))
   \<and> dsi (fst (handleTherapyCompletion_tab 1 therapySession)) = Num 46.4
   \<and> dsi (fst (handleTherapyCompletion_tab 1 therapySession)) \<noteq> Num 45
   \<and> currentLevel (fst (handleTherapyCompletion_tab 1 therapySession)) = 3
   \<and> currentLevel (fst (handleTherapyCompletion_tab 1 therapySession)) \<noteq> 0"
  by (simp add: therapySession_eq handleTherapyCompletion_tab_def initTabState_def)

subsection \<open>Teardown\<close>

lemma onRemoved_storage:
  "storage (onRemoved tabId w) k =
     (if k = (''dsi_'', tabId) \<or> k = (''level_'', tabId) then None else storage w k)"
  by (simp add: onRemoved_def stopDSITimer_def Let_def split: option.split)

text \<open>
  Claim C6 at a concrete session. Tab 1 is opened, ticks once and is closed. The listener
  cancels the timer, evicts the state and removes the keys \<^verbatim>\<open>dsi_1\<close> and \<^verbatim>\<open>level_1\<close>;
  the keys \<^verbatim>\<open>entropy_1\<close> and \<^verbatim>\<open>inFlow_1\<close>, written by the tick, are still in storage
  afterwards.
\<close>

theorem C6_teardown_leaves_snapshot:
  "tabStates closedTab 1 = None \<and> updateIntervals closedTab 1 = None \<and> timers closedTab 1 = None
   \<and> storage closedTab (''dsi_'', 1) = None \<and> storage closedTab (''level_'', 1) = None
   \<and> storage closedTab (''entropy_'', 1) = Some (SNum (Num 0))
   \<and> storage closedTab (''inFlow_'', 1) = Some (SBool False)"
  by (simp add: closedTab_def onRemoved_def stopDSITimer_def timerFires_def startDSITimer_def
        updateDSI_def getTabState_def commit_def initialWorld_def initTabState_def tick_eval)

subsection \<open>The monitor's report\<close>






subsection \<open>Behaviour reports with out-of-range values\<close>

lemma invalid_no_signal:
  "invalidInput v \<Longrightarrow> \<not> js_gt v 0 \<and> \<not> js_gt (Math_max (Num 0) v) 0"
  by (cases v) (simp_all add: invalidInput_def)

lemma quiet_entropy:
  assumes "\<not> js_gt (scrollSpeed s) 0" and "\<not> js_gt (clickFrequency s) 0"
    and "\<not> js_gt (directionChanges s) 0" and "\<not> js_gt (rageClickCount s) 0"
  shows "calculateEntropyScore s = 0"
proof -
  have "\<not> js_gt (scrollSpeed s) SCROLL_SPEED_CHAOTIC" "\<not> js_gt (scrollSpeed s) SCROLL_SPEED_THRESHOLD"
       "\<not> js_gt (clickFrequency s) CLICK_FREQUENCY_CHAOTIC"
       "\<not> js_gt (directionChanges s) DIRECTION_CHANGE_CHAOTIC"
       "\<not> js_gt (rageClickCount s) RAGE_CLICK_THRESHOLD"
    using assms js_gt_mono by fastforce+
  then show ?thesis by (simp add: calculateEntropyScore_def)
qed

lemma quiet_idle:
  assumes "\<not> js_gt (scrollSpeed s) 0" and "\<not> js_gt (clickFrequency s) 0"
    and "\<not> js_gt (directionChanges s) 0" and "\<not> js_gt (rageClickCount s) 0"
    and "\<not> isTherapyActive s" and "\<not> isReaderModeActive s"
  shows "calculateDSIDelta now s =
           (level1Floor s (fst (idleDelta (now - lastActivityTime s) (s\<lparr>entropyScore := 0\<rparr>))),
            snd (idleDelta (now - lastActivityTime s) (s\<lparr>entropyScore := 0\<rparr>)))"
proof -
  have "\<not> js_gt (scrollSpeed s) 50" using assms(1) js_gt_mono by fastforce
  then show ?thesis
    using assms(2,5,6) quiet_entropy [OF assms(1-4)]
    by (simp add: calculateDSIDelta_def Let_def split_def level1Floor_def idleDelta_snd)
qed

lemma handleBehaviorData_features:
  "scrollSpeed (handleBehaviorData_tab now s d)
     = (case data_scrollSpeed d of Some v \<Rightarrow> Math_max (scrollSpeed s) v | None \<Rightarrow> scrollSpeed s)"
  "clickFrequency (handleBehaviorData_tab now s d)
     = (case data_clickFrequency d of Some v \<Rightarrow> Math_max (clickFrequency s) v | None \<Rightarrow> clickFrequency s)"
  "directionChanges (handleBehaviorData_tab now s d)
     = (case data_directionChanges d of Some v \<Rightarrow> v | None \<Rightarrow> directionChanges s)"
  "rageClickCount (handleBehaviorData_tab now s d)
     = (case data_rageClickCount d of Some v \<Rightarrow> v | None \<Rightarrow> rageClickCount s)"
  by (simp_all add: handleBehaviorData_tab_def Let_def split: option.split)

text \<open>
  Claim C8, as amended. \<^verbatim>\<open>handleBehaviorData\<close> validates nothing. Every field present in
  a report is stored, whatever its value: the scroll speed and the click frequency through
  \<^verbatim>\<open>Math.max\<close> with the stored value, the direction-change and rage-click counts as they
  are; the time of last activity is set to the clock; the score and the level are not
  touched by the report. What protects the score is only that features are read through
  threshold comparisons: a value that is \<^verbatim>\<open>NaN\<close> or negative, stored as it is or through
  \<^verbatim>\<open>Math.max\<close> with a fresh counter, exceeds no threshold, and a state none of whose
  four features exceeds 0 has entropy 0 and, in standard mode, gets the delta of the idle
  branch.
\<close>

theorem C8_reports_unvalidated:
  "scrollSpeed (handleBehaviorData_tab now s d)
     = (case data_scrollSpeed d of Some v \<Rightarrow> Math_max (scrollSpeed s) v | None \<Rightarrow> scrollSpeed s)
   \<and> clickFrequency (handleBehaviorData_tab now s d)
     = (case data_clickFrequency d of Some v \<Rightarrow> Math_max (clickFrequency s) v | None \<Rightarrow> clickFrequency s)
   \<and> directionChanges (handleBehaviorData_tab now s d)
     = (case data_directionChanges d of Some v \<Rightarrow> v | None \<Rightarrow> directionChanges s)
   \<and> rageClickCount (handleBehaviorData_tab now s d)
     = (case data_rageClickCount d of Some v \<Rightarrow> v | None \<Rightarrow> rageClickCount s)
   \<and> lastActivityTime (handleBehaviorData_tab now s d) = now
   \<and> dsi (handleBehaviorData_tab now s d) = dsi s
   \<and> currentLevel (handleBehaviorData_tab now s d) = currentLevel s
   \<and> (invalidInput x \<longrightarrow> \<not> js_gt x 0 \<and> \<not> js_gt (Math_max (Num 0) x) 0)
   \<and> (\<not> js_gt (scrollSpeed s) 0 \<and> \<not> js_gt (clickFrequency s) 0
        \<and> \<not> js_gt (directionChanges s) 0 \<and> \<not> js_gt (rageClickCount s) 0
      \<longrightarrow> calculateEntropyScore s = 0
        \<and> (\<not> isTherapyActive s \<and> \<not> isReaderModeActive s
           \<longrightarrow> calculateDSIDelta now' s =
                 (level1Floor s (fst (idleDelta (now' - lastActivityTime s) (s\<lparr>entropyScore := 0\<rparr>))),
                  snd (idleDelta (now' - lastActivityTime s) (s\<lparr>entropyScore := 0\<rparr>)))))"
  using handleBehaviorData_features [of now s d] handleBehaviorData_keeps [of now s d]
    invalid_no_signal [of x] quiet_entropy [of s] quiet_idle [of s now']
  by blast

text \<open>
  The amended claim at the session that has just stored a report with \<^verbatim>\<open>NaN\<close> and
  negative values: no feature exceeds 0, the entropy is 0 and the delta is that of the
  grace period.
\<close>

theorem C8_reports_unvalidated_witness:
  "invalidInput NaN \<and> \<not> js_gt NaN 0
   \<and> \<not> js_gt (scrollSpeed nanSession) 0 \<and> \<not> js_gt (clickFrequency nanSession) 0
   \<and> \<not> js_gt (directionChanges nanSession) 0 \<and> \<not> js_gt (rageClickCount nanSession) 0
   \<and> \<not> isTherapyActive nanSession \<and> \<not> isReaderModeActive nanSession
   \<and> calculateEntropyScore nanSession = 0
   \<and> fst (calculateDSIDelta 5000 nanSession) = Num 0"
proof -
  have h: "invalidInput NaN"
    "\<not> js_gt (scrollSpeed nanSession) 0 \<and> \<not> js_gt (clickFrequency nanSession) 0
      \<and> \<not> js_gt (directionChanges nanSession) 0 \<and> \<not> js_gt (rageClickCount nanSession) 0"
    "\<not> isTherapyActive nanSession \<and> \<not> isReaderModeActive nanSession"
    "lastActivityTime nanSession = 5000" "currentLevel nanSession = 1"
    by (simp_all add: nanSession_eq initTabState_def invalidInput_def)
  from C8_reports_unvalidated [of 5000 nanSession badReport NaN 5000] h(1-3)
  have c: "\<not> js_gt NaN 0" "calculateEntropyScore nanSession = 0"
    "calculateDSIDelta 5000 nanSession =
       (level1Floor nanSession (fst (idleDelta (5000 - lastActivityTime nanSession) (nanSession\<lparr>entropyScore := 0\<rparr>))),
        snd (idleDelta (5000 - lastActivityTime nanSession) (nanSession\<lparr>entropyScore := 0\<rparr>)))"
    by blast+
  have "fst (calculateDSIDelta 5000 nanSession) = Num 0"
    unfolding c(3) by (simp add: h(4,5) idleDelta_def level1Floor_def)
  with h c show ?thesis by simp
qed

text \<open>
  The claim as stated fails: a report with \<^verbatim>\<open>NaN\<close> and negative values, handled at clock
  5000, changes the session (its scroll speed becomes \<^verbatim>\<open>NaN\<close>, its direction-change
  count \<open>-1\<close>, its time of last activity 5000), and the tick that follows leaves the score
  at 50, where without the report it would have decayed to 48.45.
\<close>

theorem C8_counterexample:
  "invalidInput NaN \<and> invalidInput (Num (- 1))
   \<and> nanSession = handleBehaviorData_tab 5000 flowSession badReport
   \<and> data_scrollSpeed badReport = Some NaN
   \<and> data_directionChanges badReport = Some (Num (- 1))
   \<and> scrollSpeed nanSession = NaN
   \<and> directionChanges nanSession = Num (- 1)
   \<and> rageClickCount nanSession = NaN
   \<and> lastActivityTime nanSession = 5000
   \<and> lastActivityTime flowSession = 0
   \<and> nanSession \<noteq> flowSession
   \<and> dsi (fst (updateDSI_tab 5000 1 nanSession)) = Num 50
   \<and> dsi (fst (updateDSI_tab 5000 1 flowSession)) = Num 48.45"
proof -
  have ne: "nanSession \<noteq> flowSession"
  proof
    assume "nanSession = flowSession"
    then have "lastActivityTime nanSession = lastActivityTime flowSession" by simp
    then show False by (simp add: nanSession_eq flowSession_eq initTabState_def)
  qed
  have rest: "invalidInput NaN \<and> invalidInput (Num (- 1))
   \<and> data_scrollSpeed badReport = Some NaN
   \<and> data_directionChanges badReport = Some (Num (- 1))
   \<and> scrollSpeed nanSession = NaN
   \<and> directionChanges nanSession = Num (- 1)
   \<and> rageClickCount nanSession = NaN
   \<and> lastActivityTime nanSession = 5000
   \<and> lastActivityTime flowSession = 0
   \<and> dsi (fst (updateDSI_tab 5000 1 nanSession)) = Num 50
   \<and> dsi (fst (updateDSI_tab 5000 1 flowSession)) = Num 48.45"
    by (simp add: nanSession_eq flowSession_eq badReport_def initTabState_def invalidInput_def tick_eval)
  show ?thesis using ne rest by (simp add: nanSession_def)
qed

subsection \<open>The level-2 threshold and the suggestion signal\<close>

lemma deriveLevel_snd:
  "snd (deriveLevel st) =
     (if isReaderModeActive st then None
      else if js_gt (dsi st) LEVEL_3_THRESHOLD then None
      else if js_gt (dsi st) LEVEL_2_SUGGEST then Some strong
      else if js_gt (dsi st) LEVEL_2_THRESHOLD then Some gentle
      else None)"
  by (simp add: deriveLevel_def standardLevel_def Let_def)

lemma tick_msgs_general:
  "\<not> isTherapyActive s \<Longrightarrow>
     fst (snd (updateDSI_tab now tabId s)) =
       (let D = Math_max (Num MIN_DSI)
                  (Math_min (Num MAX_DSI) (js_add (dsi s) (fst (calculateDSIDelta now s))));
            st = (snd (calculateDSIDelta now s))\<lparr>dsi := D\<rparr>
        in if fst (deriveLevel st) \<noteq> currentLevel s
           then [INTERVENTION tabId (fst (deriveLevel st)) D (snd (deriveLevel st))
                   (calculateEntropyScore s) (isInFlowZone D) (pageType s)]
           else (case snd (deriveLevel st) of
                   Some sg \<Rightarrow> if \<not> suggestionShown s then [SUGGESTION tabId D sg] else []
                 | None \<Rightarrow> []))"
  by (simp add: updateDSI_tab_def Let_def split_def calc_snd_fields triggerIntervention_def
        sendSuggestion_def split: option.split)

lemma tick_msgs:
  assumes nt: "\<not> isTherapyActive s" and nr: "\<not> isReaderModeActive s"
    and D: "D = dsi (fst (updateDSI_tab now tabId s))"
    and lo: "js_gt D LEVEL_2_THRESHOLD" and hi: "js_le D LEVEL_3_THRESHOLD"
    and L: "L = (if js_gt D LEVEL_2_SUGGEST then 2 else 1)"
    and G: "G = (if js_gt D LEVEL_2_SUGGEST then strong else gentle)"
  shows "fst (snd (updateDSI_tab now tabId s)) =
           (if currentLevel s \<noteq> L
            then [INTERVENTION tabId L D (Some G) (calculateEntropyScore s) (isInFlowZone D) (pageType s)]
            else if \<not> suggestionShown s then [SUGGESTION tabId D G] else [])"
proof -
  define st where "st = (snd (calculateDSIDelta now s))\<lparr>dsi := D\<rparr>"
  have eq: "fst (snd (updateDSI_tab now tabId s)) =
       (if fst (deriveLevel st) \<noteq> currentLevel s
           then [INTERVENTION tabId (fst (deriveLevel st)) D (snd (deriveLevel st))
                   (calculateEntropyScore s) (isInFlowZone D) (pageType s)]
           else (case snd (deriveLevel st) of
                   Some sg \<Rightarrow> if \<not> suggestionShown s then [SUGGESTION tabId D sg] else []
                 | None \<Rightarrow> []))"
    unfolding st_def D tick_dsi using tick_msgs_general [OF nt, of now tabId]
    by (simp only: Let_def)
  have c: "\<not> js_gt D LEVEL_3_THRESHOLD" "js_gt D LEVEL_1_THRESHOLD"
    using lo hi by (cases D; simp)+
  have f: "fst (deriveLevel st) = L"
    unfolding deriveLevel_fst using nr lo c L by (simp add: st_def calc_snd_fields)
  have g: "snd (deriveLevel st) = Some G"
    unfolding deriveLevel_snd using nr lo c G by (simp add: st_def calc_snd_fields)
  show ?thesis unfolding eq f g by auto
qed

text \<open>
  Claim C9, as amended. In standard mode level 2 is entered at a single threshold, and
  that threshold is the strong suggestion sub-threshold 72: a score after the tick in
  (72, 85] gives level 2, announced with the suggestion \<open>strong\<close>. The gentle
  sub-threshold 65 does not change the level: every score after the tick in (35, 72]
  gives level 1, and in (65, 72] the tick adds the suggestion \<open>gentle\<close>. The suggestion
  travels in the intervention message when the level changed on this tick, and otherwise
  in a suggestion message, sent unless one is already pending.
\<close>

theorem C9_level2_threshold:
  assumes "\<not> isTherapyActive s" and "\<not> isReaderModeActive s"
  shows "(js_gt (dsi (fst (updateDSI_tab now tabId s))) LEVEL_1_THRESHOLD
            \<and> js_le (dsi (fst (updateDSI_tab now tabId s))) LEVEL_2_SUGGEST
          \<longrightarrow> currentLevel (fst (updateDSI_tab now tabId s)) = 1)
       \<and> (js_gt (dsi (fst (updateDSI_tab now tabId s))) LEVEL_2_SUGGEST
            \<and> js_le (dsi (fst (updateDSI_tab now tabId s))) LEVEL_3_THRESHOLD
          \<longrightarrow> currentLevel (fst (updateDSI_tab now tabId s)) = 2)
       \<and> (js_gt (dsi (fst (updateDSI_tab now tabId s))) LEVEL_2_THRESHOLD
            \<and> js_le (dsi (fst (updateDSI_tab now tabId s))) LEVEL_2_SUGGEST
          \<longrightarrow> fst (snd (updateDSI_tab now tabId s)) =
                (if currentLevel s \<noteq> 1
                 then [INTERVENTION tabId 1 (dsi (fst (updateDSI_tab now tabId s))) (Some gentle)
                         (calculateEntropyScore s)
                         (isInFlowZone (dsi (fst (updateDSI_tab now tabId s)))) (pageType s)]
                 else if \<not> suggestionShown s
                   then [SUGGESTION tabId (dsi (fst (updateDSI_tab now tabId s))) gentle]
                 else []))
       \<and> (js_gt (dsi (fst (updateDSI_tab now tabId s))) LEVEL_2_SUGGEST
            \<and> js_le (dsi (fst (updateDSI_tab now tabId s))) LEVEL_3_THRESHOLD
          \<longrightarrow> fst (snd (updateDSI_tab now tabId s)) =
                (if currentLevel s \<noteq> 2
                 then [INTERVENTION tabId 2 (dsi (fst (updateDSI_tab now tabId s))) (Some strong)
                         (calculateEntropyScore s)
                         (isInFlowZone (dsi (fst (updateDSI_tab now tabId s)))) (pageType s)]
                 else if \<not> suggestionShown s
                   then [SUGGESTION tabId (dsi (fst (updateDSI_tab now tabId s))) strong]
                 else []))"
proof -
  define D where "D = dsi (fst (updateDSI_tab now tabId s))"
  have lvl: "currentLevel (fst (updateDSI_tab now tabId s)) =
     (if js_gt D LEVEL_3_THRESHOLD then 3 else if js_gt D LEVEL_2_SUGGEST then 2
      else if js_gt D LEVEL_1_THRESHOLD then 1 else if currentLevel s = 1 \<and> js_gt D 20 then 1 else 0)"
    using tick_level [OF assms(1), of now tabId] assms(2) by (simp add: D_def)
  have c: "js_le D LEVEL_2_SUGGEST \<Longrightarrow> \<not> js_gt D LEVEL_2_SUGGEST \<and> \<not> js_gt D LEVEL_3_THRESHOLD"
    "js_le D LEVEL_3_THRESHOLD \<Longrightarrow> \<not> js_gt D LEVEL_3_THRESHOLD"
    "js_gt D LEVEL_2_SUGGEST \<Longrightarrow> js_gt D LEVEL_2_THRESHOLD"
    by (cases D; simp)+
  have m1: "js_gt D LEVEL_2_THRESHOLD \<Longrightarrow> js_le D LEVEL_2_SUGGEST \<Longrightarrow>
     fst (snd (updateDSI_tab now tabId s)) =
       (if currentLevel s \<noteq> 1
        then [INTERVENTION tabId 1 D (Some gentle) (calculateEntropyScore s) (isInFlowZone D) (pageType s)]
        else if \<not> suggestionShown s then [SUGGESTION tabId D gentle] else [])"
    using tick_msgs [OF assms D_def, of 1 gentle] c by (cases D) simp_all
  have m2: "js_gt D LEVEL_2_SUGGEST \<Longrightarrow> js_le D LEVEL_3_THRESHOLD \<Longrightarrow>
     fst (snd (updateDSI_tab now tabId s)) =
       (if currentLevel s \<noteq> 2
        then [INTERVENTION tabId 2 D (Some strong) (calculateEntropyScore s) (isInFlowZone D) (pageType s)]
        else if \<not> suggestionShown s then [SUGGESTION tabId D strong] else [])"
    using tick_msgs [OF assms D_def, of 2 strong] c by (cases D) simp_all
  show ?thesis
    unfolding D_def [symmetric] using lvl m1 m2 c by auto
qed

text \<open>
  The amended claim at two sessions at level 1 with score 70: one idles, stays at 70 and
  level 1 and receives the gentle suggestion; the other reverses its scrolling three
  times, rises to 75 and enters level 2 with the strong suggestion.
\<close>

theorem C9_level2_threshold_witness:
  "\<not> isTherapyActive calmSession \<and> \<not> isReaderModeActive calmSession
   \<and> js_gt (dsi (fst (updateDSI_tab 1000 1 calmSession))) LEVEL_2_THRESHOLD
   \<and> js_le (dsi (fst (updateDSI_tab 1000 1 calmSession))) LEVEL_2_SUGGEST
   \<and> currentLevel (fst (updateDSI_tab 1000 1 calmSession)) = 1
   \<and> fst (snd (updateDSI_tab 1000 1 calmSession)) = [SUGGESTION 1 (Num 70) gentle]
   \<and> \<not> isTherapyActive gentleSession \<and> \<not> isReaderModeActive gentleSession
   \<and> js_gt (dsi (fst (updateDSI_tab 1000 1 gentleSession))) LEVEL_2_SUGGEST
   \<and> js_le (dsi (fst (updateDSI_tab 1000 1 gentleSession))) LEVEL_3_THRESHOLD
   \<and> currentLevel (fst (updateDSI_tab 1000 1 gentleSession)) = 2
   \<and> fst (snd (updateDSI_tab 1000 1 gentleSession))
       = [INTERVENTION 1 2 (Num 75) (Some strong) 0.5 False ''other'']"
proof -
  have c: "\<not> isTherapyActive calmSession" "\<not> isReaderModeActive calmSession"
    by (simp_all add: calmSession_eq initTabState_def)
  have g: "\<not> isTherapyActive gentleSession" "\<not> isReaderModeActive gentleSession"
    by (simp_all add: gentleSession_eq initTabState_def)
  from C9_level2_threshold [OF c, of 1000 1] C9_level2_threshold [OF g, of 1000 1]
    calm_tick gentle_tick c g
  show ?thesis by simp
qed

text \<open>
  The claim as stated fails at the strong sub-threshold: a session at level 1 with score
  70 that crosses 72 on a tick (to 75) is at level 2 after that tick.
\<close>

theorem C9_counterexample:
  "\<not> isTherapyActive gentleSession \<and> \<not> isReaderModeActive gentleSession
   \<and> currentLevel gentleSession = 1 \<and> dsi gentleSession = Num 70
   \<and> dsi (fst (updateDSI_tab 1000 1 gentleSession)) = Num 75
   \<and> currentLevel (fst (updateDSI_tab 1000 1 gentleSession)) = 2
   \<and> currentLevel (fst (updateDSI_tab 1000 1 gentleSession)) \<noteq> currentLevel gentleSession"
  using gentle_tick by (simp add: gentleSession_eq initTabState_def)

subsection \<open>Entering reader mode\<close>

text \<open>
  Claim C10. The \<^verbatim>\<open>READER_MODE_STATE\<close> handler with an activating payload sets the reader
  flag; when the score is below 65 it sets the score to 70 and sends one level-2
  intervention with the suggestion \<open>strong\<close>, within the handler and so before any tick;
  when the score is 65 or more it leaves the score as it is and sends nothing.
\<close>

theorem C10_reader_activation:
  "READER_MODE_STATE_tab tabId True s =
     (if js_lt (dsi s) LEVEL_2_THRESHOLD
      then (s\<lparr>isReaderModeActive := True, dsi := Num 70\<rparr>,
            [INTERVENTION tabId 2 (Num 70) (Some strong) (entropyScore s) (isInFlowZone (Num 70))
               (pageType s)],
            [])
      else (s\<lparr>isReaderModeActive := True\<rparr>, [], []))"
  by (simp add: READER_MODE_STATE_tab_def Let_def triggerIntervention_def)

end
